theory Spec2Isabelle
  imports Main
begin

section \<open>Errors and the state list\<close>

text \<open>
  A transaction either returns a record or throws. \<open>Error\<close> is a JavaScript
  \<^verbatim>\<open>throw new Error(msg)\<close> of the contract itself, \<open>TypeError\<close> a call of a method the
  receiver does not have (or a property read on \<^verbatim>\<open>null\<close>/\<^verbatim>\<open>undefined\<close>),
  \<open>ReferenceError\<close> the use of an undeclared identifier, \<open>SyntaxError\<close> a file that the
  JavaScript engine refuses to load, \<open>NotFoundError\<close> the failure of the state list's
  update.  The string names the message, the method or the identifier.
\<close>

datatype error =
    Error string
  | TypeError string
  | ReferenceError string
  | SyntaxError string
  | NotFoundError

text \<open>
  Every transaction is a function from the world state of its namespace to an outcome and
  the world state it leaves behind: a thrown error leaves the state as it was.
\<close>

type_synonym 'a StateList = "string list \<rightharpoonup> 'a"

text \<open>
  Modelled from the spec: \<^verbatim>\<open>State.makeKey\<close> of \<^verbatim>\<open>ledger-api/state.js\<close> is not among the
  sources.  Section 4.1: "makeKey(parts) -> compositeKey deterministically joins type tag and
  key parts in a fixed, documented order".  The composite key is kept as the ordered list of
  its parts; the type tag is the namespace, which is one state list per asset class.
\<close>

definition makeKey :: "string list \<Rightarrow> string list" where
  "makeKey keyParts = keyParts"

text \<open>
  Class \<^verbatim>\<open>StateList\<close> of \<^verbatim>\<open>ledger-api/statelist.js\<close> (\<^verbatim>\<open>addState\<close>,
  \<^verbatim>\<open>getState\<close>, \<^verbatim>\<open>updateState\<close>) is not among the sources; only its callers are.
  The namespace of a list is a map from composite keys to the attributes that were written.
\<close>

text \<open>
  Modelled from the spec: \<^verbatim>\<open>StateList.getState\<close> is not among the sources.  Section 3:
  "asset objects are transient in-memory representations materialized on read and serialized
  back on write"; section 4.1: "deserialization must reconstruct the exact asset subtype".
  Every asset class among the sources hands itself to the read path (\<^verbatim>\<open>static deserialize\<close>
  is \<^verbatim>\<open>State.deserializeClass(data, Class)\<close>, and its list calls \<^verbatim>\<open>this.use(Class)\<close>),
  so the record that a read returns is a new object of the class: its constructor, applied
  to the stored attributes.  The constructor is the first argument.  Section 4.2: "several
  paths in the reference behavior skip this check and operate on an undefined record";
  reading an absent key gives no record (\<open>None\<close>), and the failure is the caller's.
\<close>

definition getState :: "('a \<Rightarrow> 'a) \<Rightarrow> string list \<Rightarrow> 'a StateList \<Rightarrow> 'a option" where
  "getState construct k s = map_option construct (s k)"

text \<open>
  Modelled from the spec: \<^verbatim>\<open>StateList.addState\<close> is not among the sources.  Section 3:
  "creating over an existing key must be rejected (not uniformly enforced)"; section 4.2:
  "the per-contract already-exists checks are an implementer-reproducible pattern --
  centralize this check here rather than duplicating it in each contract"; section 9: "some
  creation paths check for existing key before insert, others do not".  In the code the
  check belongs to the contracts, and the list writes the record under its key.
\<close>

definition addState :: "('a \<Rightarrow> string list) \<Rightarrow> 'a \<Rightarrow> 'a StateList \<Rightarrow> 'a StateList" where
  "addState keyOf state s = s(keyOf state \<mapsto> state)"

text \<open>
  Modelled from the spec: \<^verbatim>\<open>StateList.updateState\<close> is not among the sources.  Section
  4.2: "overwrites only if the key already exists; fails with NotFoundError otherwise".
\<close>

definition updateState ::
  "('a \<Rightarrow> string list) \<Rightarrow> 'a \<Rightarrow> 'a StateList \<Rightarrow> error + 'a StateList" where
  "updateState keyOf state s =
     (if s (keyOf state) = None then Inl NotFoundError
      else Inr (s(keyOf state \<mapsto> state)))"

section \<open>Raw materials\<close>

subsection \<open>Class RawMaterial\<close>

text \<open>
  The fields of a \<^verbatim>\<open>RawMaterial\<close> object.  The arguments of a transaction are strings; a
  field that the constructor sets to \<^verbatim>\<open>null\<close> is an option.  \<open>key\<close> is the composite key
  that the constructor hands to the base class: manufacturer first, then batch number.
\<close>

record RawMaterial =
  key :: "string list"
  materialName :: string
  batchNumber :: string
  quantity :: string
  manufacturer :: string
  manufactureDate :: string
  purchaser :: "string option"
  purchaseDate :: "string option"
  price :: "string option"
  dateMixedIn :: "string option"
  mspid :: "string option"

definition RawMaterial_createInstance ::
  "string \<Rightarrow> string \<Rightarrow> string \<Rightarrow> string \<Rightarrow> string \<Rightarrow> RawMaterial" where
  "RawMaterial_createInstance materialName' batchNumber' quantity' manufacturer' manufactureDate' =
     \<lparr> key = makeKey [manufacturer', batchNumber'],
       materialName = materialName',
       batchNumber = batchNumber',
       quantity = quantity',
       manufacturer = manufacturer',
       manufactureDate = manufactureDate',
       purchaser = None,
       purchaseDate = None,
       price = None,
       dateMixedIn = None,
       mspid = None \<rparr>"

text \<open>
  The constructor, on an object that carries attributes already (the stored attributes of
  a record): \<^verbatim>\<open>Object.assign(this, obj)\<close> copies them, and the five assignments that
  follow set purchaser, purchase date, price, date mixed in and owner MSP to \<^verbatim>\<open>null\<close>.
\<close>

definition RawMaterial_constructor :: "RawMaterial \<Rightarrow> RawMaterial" where
  "RawMaterial_constructor obj =
     obj\<lparr> RawMaterial.key := makeKey [RawMaterial.manufacturer obj, RawMaterial.batchNumber obj],
          RawMaterial.purchaser := None,
          RawMaterial.purchaseDate := None,
          RawMaterial.price := None,
          RawMaterial.dateMixedIn := None,
          RawMaterial.mspid := None \<rparr>"

definition RawMaterial_getPurchaser :: "RawMaterial \<Rightarrow> string option" where
  "RawMaterial_getPurchaser m = RawMaterial.purchaser m"

definition RawMaterial_setPurchaser :: "string \<Rightarrow> RawMaterial \<Rightarrow> RawMaterial" where
  "RawMaterial_setPurchaser p m = m\<lparr>RawMaterial.purchaser := Some p\<rparr>"

definition RawMaterial_setPurchaseDate :: "string \<Rightarrow> RawMaterial \<Rightarrow> RawMaterial" where
  "RawMaterial_setPurchaseDate d m = m\<lparr>RawMaterial.purchaseDate := Some d\<rparr>"

definition RawMaterial_setPrice :: "string \<Rightarrow> RawMaterial \<Rightarrow> RawMaterial" where
  "RawMaterial_setPrice p m = m\<lparr>RawMaterial.price := Some p\<rparr>"

definition RawMaterial_getDateMixedIn :: "RawMaterial \<Rightarrow> string option" where
  "RawMaterial_getDateMixedIn m = RawMaterial.dateMixedIn m"

definition RawMaterial_setDateMixedIn :: "string \<Rightarrow> RawMaterial \<Rightarrow> RawMaterial" where
  "RawMaterial_setDateMixedIn d m = m\<lparr>RawMaterial.dateMixedIn := Some d\<rparr>"

definition RawMaterial_setOwnerMSP :: "string \<Rightarrow> RawMaterial \<Rightarrow> RawMaterial" where
  "RawMaterial_setOwnerMSP i m = m\<lparr>RawMaterial.mspid := Some i\<rparr>"

subsection \<open>Class RawMaterialList\<close>

definition addRawMaterial :: "RawMaterial \<Rightarrow> RawMaterial StateList \<Rightarrow> RawMaterial StateList" where
  "addRawMaterial material s = addState RawMaterial.key material s"

definition getRawMaterial :: "string list \<Rightarrow> RawMaterial StateList \<Rightarrow> RawMaterial option" where
  "getRawMaterial materialKey s = getState RawMaterial_constructor materialKey s"

definition updateRawMaterial ::
  "RawMaterial \<Rightarrow> RawMaterial StateList \<Rightarrow> error + RawMaterial StateList" where
  "updateRawMaterial material s = updateState RawMaterial.key material s"

subsection \<open>Class RawMaterialContract\<close>

text \<open>
  The source holds two versions of the contract.  The first argument of every transaction
  here is \<^verbatim>\<open>ctx.clientIdentity.getMSPID()\<close>, the organisation of the caller.

  First version.  The body of \<^verbatim>\<open>createMaterial\<close> declares \<^verbatim>\<open>let material\<close> twice in
  one block (once for the record read at the key, once for the new instance).  That is an
  early \<^verbatim>\<open>SyntaxError\<close>: the file is refused as a whole, the contract class never exists,
  and no transaction of this version runs.  A request for any of them fails with that
  error and the world state stays as it was.
\<close>

definition createMaterial ::
  "string \<Rightarrow> string \<Rightarrow> string \<Rightarrow> string \<Rightarrow> string \<Rightarrow> string \<Rightarrow> RawMaterial StateList
     \<Rightarrow> (error + RawMaterial) \<times> RawMaterial StateList" where
  "createMaterial caller materialName' batchNumber' quantity' manufacturer' manufactureDate' s =
     (Inl (SyntaxError ''material''), s)"

definition purchaseMaterial ::
  "string \<Rightarrow> string \<Rightarrow> string \<Rightarrow> string \<Rightarrow> string \<Rightarrow> string \<Rightarrow> RawMaterial StateList
     \<Rightarrow> (error + RawMaterial) \<times> RawMaterial StateList" where
  "purchaseMaterial caller manufacturer' batchNumber' purchaser' price' purchaseDateTime s =
     (Inl (SyntaxError ''material''), s)"

definition addMaterial ::
  "string \<Rightarrow> string \<Rightarrow> string \<Rightarrow> string \<Rightarrow> RawMaterial StateList
     \<Rightarrow> (error + RawMaterial) \<times> RawMaterial StateList" where
  "addMaterial caller manufacturer' batchNumber' dateTimeAdded s =
     (Inl (SyntaxError ''material''), s)"

text \<open>
  Second version.  \<open>createMaterial2\<close> does not read the key before it writes.
\<close>

definition createMaterial2 ::
  "string \<Rightarrow> string \<Rightarrow> string \<Rightarrow> string \<Rightarrow> string \<Rightarrow> string \<Rightarrow> RawMaterial StateList
     \<Rightarrow> (error + RawMaterial) \<times> RawMaterial StateList" where
  "createMaterial2 caller materialName' batchNumber' quantity' manufacturer' manufactureDate' s =
     (let material = RawMaterial_createInstance materialName' batchNumber' quantity'
                       manufacturer' manufactureDate';
          material = RawMaterial_setOwnerMSP caller material
      in (Inr material, addRawMaterial material s))"

text \<open>
  \<open>purchaseMaterial2\<close> has no test for an absent record, so \<^verbatim>\<open>material.getPurchaser()\<close>
  on \<^verbatim>\<open>null\<close> throws; then the purchaser guard, the three setters and the owner MSP.
\<close>

definition purchaseMaterial2 ::
  "string \<Rightarrow> string \<Rightarrow> string \<Rightarrow> string \<Rightarrow> string \<Rightarrow> string \<Rightarrow> RawMaterial StateList
     \<Rightarrow> (error + RawMaterial) \<times> RawMaterial StateList" where
  "purchaseMaterial2 caller manufacturer' batchNumber' purchaser' price' purchaseDateTime s =
     (let primaryKey = makeKey [manufacturer', batchNumber'] in
      case getRawMaterial primaryKey s of
        None \<Rightarrow> (Inl (TypeError ''getPurchaser''), s)
      | Some material \<Rightarrow>
          if RawMaterial_getPurchaser material \<noteq> None
          then (Inl (Error ''is already purchased''), s)
          else
            (let material = RawMaterial_setPurchaser purchaser' material;
                 material = RawMaterial_setPurchaseDate purchaseDateTime material;
                 material = RawMaterial_setPrice price' material;
                 material = RawMaterial_setOwnerMSP caller material
             in case updateRawMaterial material s of
                  Inl e \<Rightarrow> (Inl e, s)
                | Inr s' \<Rightarrow> (Inr material, s')))"

text \<open>\<open>addMaterial2\<close> does not read the caller's identity.\<close>

definition addMaterial2 ::
  "string \<Rightarrow> string \<Rightarrow> string \<Rightarrow> string \<Rightarrow> RawMaterial StateList
     \<Rightarrow> (error + RawMaterial) \<times> RawMaterial StateList" where
  "addMaterial2 caller manufacturer' batchNumber' dateTimeAdded s =
     (let primaryKey = makeKey [manufacturer', batchNumber'] in
      case getRawMaterial primaryKey s of
        None \<Rightarrow> (Inl (TypeError ''getDateMixedIn''), s)
      | Some material \<Rightarrow>
          if RawMaterial_getDateMixedIn material \<noteq> None
          then (Inl (Error ''is already used''), s)
          else
            (let material = RawMaterial_setDateMixedIn dateTimeAdded material
             in case updateRawMaterial material s of
                  Inl e \<Rightarrow> (Inl e, s)
                | Inr s' \<Rightarrow> (Inr material, s')))"

section \<open>Vaccine batches\<close>

subsection \<open>Class VaccineBatch\<close>

datatype batchState = SHIPPED | ARRIVED | ISSUED | WAREHOUSED

text \<open>The numbers of the enumeration \<^verbatim>\<open>batchState\<close>.\<close>

fun batchState_code :: "batchState \<Rightarrow> int" where
  "batchState_code SHIPPED = 1"
| "batchState_code ARRIVED = 2"
| "batchState_code ISSUED = 3"
| "batchState_code WAREHOUSED = 4"

text \<open>
  The fields of a \<^verbatim>\<open>VaccineBatch\<close> object.  The constructor assigns every field but
  \<open>price\<close> and \<open>mspid\<close>, which are \<^verbatim>\<open>undefined\<close> (\<open>None\<close>) until their setters run.
  \<open>rawMaterialBatchSet\<close> is a JavaScript \<^verbatim>\<open>Set\<close>.
\<close>

record VaccineBatch =
  key :: "string list"
  vaccineName :: string
  batchNumber :: string
  quantity :: string
  manufacturer :: string
  manufactureDate :: string
  purchaser :: "string option"
  purchaseDate :: "string option"
  currentState :: "batchState option"
  approver :: "string option"
  shippingProvider :: "string option"
  shipmentUUID :: "string option"
  temperature :: "string option"
  timestamp :: "string option"
  entityAllocated :: "string option"
  ready :: bool
  rawMaterialBatchSet :: "string set"
  price :: "string option"
  mspid :: "string option"

definition VaccineBatch_createInstance ::
  "string \<Rightarrow> string \<Rightarrow> string \<Rightarrow> string \<Rightarrow> string \<Rightarrow> VaccineBatch" where
  "VaccineBatch_createInstance vaccineName' batchNumber' quantity' manufacturer' manufactureDate' =
     \<lparr> key = makeKey [batchNumber', manufacturer'],
       vaccineName = vaccineName',
       batchNumber = batchNumber',
       quantity = quantity',
       manufacturer = manufacturer',
       manufactureDate = manufactureDate',
       purchaser = Some manufacturer',
       purchaseDate = None,
       currentState = None,
       approver = None,
       shippingProvider = None,
       shipmentUUID = None,
       temperature = None,
       timestamp = None,
       entityAllocated = None,
       ready = False,
       rawMaterialBatchSet = {},
       price = None,
       mspid = None \<rparr>"

text \<open>
  The constructor, on an object that carries attributes already (the stored attributes of
  a batch): after \<^verbatim>\<open>Object.assign(this, obj)\<close> it sets the purchaser to the manufacturer,
  the fields from \<open>purchaseDate\<close> to \<open>entityAllocated\<close> to \<^verbatim>\<open>null\<close>, \<open>ready\<close> to
  \<^verbatim>\<open>false\<close> and the raw materials to a new, empty \<^verbatim>\<open>Set\<close>.  It does not assign
  \<open>price\<close> and \<open>mspid\<close>.
\<close>

definition VaccineBatch_constructor :: "VaccineBatch \<Rightarrow> VaccineBatch" where
  "VaccineBatch_constructor obj =
     obj\<lparr> VaccineBatch.key :=
            makeKey [VaccineBatch.batchNumber obj, VaccineBatch.manufacturer obj],
          VaccineBatch.purchaser := Some (VaccineBatch.manufacturer obj),
          VaccineBatch.purchaseDate := None,
          VaccineBatch.currentState := None,
          VaccineBatch.approver := None,
          VaccineBatch.shippingProvider := None,
          VaccineBatch.shipmentUUID := None,
          VaccineBatch.temperature := None,
          VaccineBatch.timestamp := None,
          VaccineBatch.entityAllocated := None,
          VaccineBatch.ready := False,
          VaccineBatch.rawMaterialBatchSet := {} \<rparr>"

definition VaccineBatch_getPurchaser :: "VaccineBatch \<Rightarrow> string option" where
  "VaccineBatch_getPurchaser b = VaccineBatch.purchaser b"

definition VaccineBatch_setPurchaser :: "string \<Rightarrow> VaccineBatch \<Rightarrow> VaccineBatch" where
  "VaccineBatch_setPurchaser newPurchaser b = b\<lparr>VaccineBatch.purchaser := Some newPurchaser\<rparr>"

definition VaccineBatch_setPurchaseDate :: "string \<Rightarrow> VaccineBatch \<Rightarrow> VaccineBatch" where
  "VaccineBatch_setPurchaseDate newPurchaseDate b =
     b\<lparr>VaccineBatch.purchaseDate := Some newPurchaseDate\<rparr>"

definition VaccineBatch_setPrice :: "string \<Rightarrow> VaccineBatch \<Rightarrow> VaccineBatch" where
  "VaccineBatch_setPrice newPrice b = b\<lparr>VaccineBatch.price := Some newPrice\<rparr>"

definition VaccineBatch_setShipped :: "VaccineBatch \<Rightarrow> VaccineBatch" where
  "VaccineBatch_setShipped b = b\<lparr>VaccineBatch.currentState := Some SHIPPED\<rparr>"

definition VaccineBatch_setArrived :: "VaccineBatch \<Rightarrow> VaccineBatch" where
  "VaccineBatch_setArrived b = b\<lparr>VaccineBatch.currentState := Some ARRIVED\<rparr>"

definition VaccineBatch_setWarehoused :: "VaccineBatch \<Rightarrow> VaccineBatch" where
  "VaccineBatch_setWarehoused b = b\<lparr>VaccineBatch.currentState := Some WAREHOUSED\<rparr>"

definition VaccineBatch_setShippingProvider :: "string \<Rightarrow> VaccineBatch \<Rightarrow> VaccineBatch" where
  "VaccineBatch_setShippingProvider newShippingProvider b =
     b\<lparr>VaccineBatch.shippingProvider := Some newShippingProvider\<rparr>"

definition VaccineBatch_setShipmentUUID :: "string \<Rightarrow> VaccineBatch \<Rightarrow> VaccineBatch" where
  "VaccineBatch_setShipmentUUID newShipmentUUID b =
     b\<lparr>VaccineBatch.shipmentUUID := Some newShipmentUUID\<rparr>"

definition VaccineBatch_addRawMaterial :: "string \<Rightarrow> VaccineBatch \<Rightarrow> VaccineBatch" where
  "VaccineBatch_addRawMaterial material b =
     b\<lparr>VaccineBatch.rawMaterialBatchSet := insert material (VaccineBatch.rawMaterialBatchSet b)\<rparr>"

definition VaccineBatch_setOwnerMSP :: "string \<Rightarrow> VaccineBatch \<Rightarrow> VaccineBatch" where
  "VaccineBatch_setOwnerMSP i b = b\<lparr>VaccineBatch.mspid := Some i\<rparr>"

subsection \<open>Class VaccineBatchList\<close>

text \<open>
  The batch contract loads its list with \<^verbatim>\<open>require\<close> and calls the three methods below
  on it.  The sources hold one list of vaccine batches, under an unknown file name: its
  class, \<^verbatim>\<open>VaccineList\<close>, declares the three methods, and its last line is
  \<^verbatim>\<open>module.exports = VaccineBatchList\<close>, an identifier that the file does not declare.
  Loading that file throws a \<^verbatim>\<open>ReferenceError\<close>, and so does loading a contract that
  requires it: \<open>VaccineBatchList_require\<close> is what \<^verbatim>\<open>require\<close> of that file gives
  (\<open>None\<close> would be a list that loads).
\<close>

definition VaccineBatchList_require :: "error option" where
  "VaccineBatchList_require = Some (ReferenceError ''VaccineBatchList'')"

definition addVaccineBatch ::
  "VaccineBatch \<Rightarrow> VaccineBatch StateList \<Rightarrow> VaccineBatch StateList" where
  "addVaccineBatch vaccineBatch s = addState VaccineBatch.key vaccineBatch s"

definition getVaccineBatch :: "string list \<Rightarrow> VaccineBatch StateList \<Rightarrow> VaccineBatch option" where
  "getVaccineBatch vaccineBatchKey s = getState VaccineBatch_constructor vaccineBatchKey s"

definition updateVaccineBatch ::
  "VaccineBatch \<Rightarrow> VaccineBatch StateList \<Rightarrow> error + VaccineBatch StateList" where
  "updateVaccineBatch vaccineBatch s = updateState VaccineBatch.key vaccineBatch s"

subsection \<open>Class VaccineBatchContract\<close>

text \<open>
  The first argument of every transaction is what loading the list gave (\<open>listModule\<close>):
  with a list that does not load the contract does not load either, and a request for any
  transaction fails with the error of the list.  The second argument is the organisation of
  the caller.
\<close>

definition VaccineBatchContract_issue ::
  "error option \<Rightarrow> string \<Rightarrow> string \<Rightarrow> string \<Rightarrow> string \<Rightarrow> string \<Rightarrow> string
     \<Rightarrow> VaccineBatch StateList \<Rightarrow> (error + VaccineBatch) \<times> VaccineBatch StateList" where
  "VaccineBatchContract_issue listModule caller vaccineName' batchNumber' quantity' manufacturer'
       manufactureDate' s =
     (case listModule of
        Some e \<Rightarrow> (Inl e, s)
      | None \<Rightarrow>
          (let currVaccineBatch = VaccineBatch_createInstance vaccineName' batchNumber' quantity'
                                    manufacturer' manufactureDate';
               currVaccineBatch = VaccineBatch_setWarehoused currVaccineBatch;
               currVaccineBatch = VaccineBatch_setOwnerMSP caller currVaccineBatch
           in (Inr currVaccineBatch, addVaccineBatch currVaccineBatch s)))"

text \<open>
  \<open>buy\<close>: the comparison is \<^verbatim>\<open>!==\<close>, and the message of the error names the undeclared
  identifier \<^verbatim>\<open>issuer\<close>, so that building it throws a \<^verbatim>\<open>ReferenceError\<close> in place of
  the intended error.  An absent batch makes \<^verbatim>\<open>getPurchaser\<close> a call on \<^verbatim>\<open>null\<close>.
\<close>

definition buy ::
  "error option \<Rightarrow> string \<Rightarrow> string \<Rightarrow> string \<Rightarrow> string \<Rightarrow> string \<Rightarrow> string \<Rightarrow> string
     \<Rightarrow> VaccineBatch StateList \<Rightarrow> (error + VaccineBatch) \<times> VaccineBatch StateList" where
  "buy listModule caller batchNumber' manufacturer' currentOwner newOwner price' purchaseDateTime s =
     (case listModule of
        Some e \<Rightarrow> (Inl e, s)
      | None \<Rightarrow>
         (let vaccineBatchKey = makeKey [batchNumber', manufacturer'] in
          case getVaccineBatch vaccineBatchKey s of
            None \<Rightarrow> (Inl (TypeError ''getPurchaser''), s)
          | Some currVaccineBatch \<Rightarrow>
              if VaccineBatch_getPurchaser currVaccineBatch \<noteq> Some currentOwner
              then (Inl (ReferenceError ''issuer''), s)
              else
                (let currVaccineBatch = VaccineBatch_setPurchaser newOwner currVaccineBatch;
                     currVaccineBatch =
                       VaccineBatch_setPurchaseDate purchaseDateTime currVaccineBatch;
                     currVaccineBatch = VaccineBatch_setPrice price' currVaccineBatch
                 in case updateVaccineBatch currVaccineBatch s of
                      Inl e \<Rightarrow> (Inl e, s)
                    | Inr s' \<Rightarrow> (Inr currVaccineBatch, s'))))"

definition ship ::
  "error option \<Rightarrow> string \<Rightarrow> string \<Rightarrow> string \<Rightarrow> string \<Rightarrow> string \<Rightarrow> VaccineBatch StateList
     \<Rightarrow> (error + VaccineBatch) \<times> VaccineBatch StateList" where
  "ship listModule caller batchNumber' manufacturer' shippingProvider' shipmentUUID' s =
     (case listModule of
        Some e \<Rightarrow> (Inl e, s)
      | None \<Rightarrow>
         (let vaccineBatchKey = makeKey [batchNumber', manufacturer'] in
          case getVaccineBatch vaccineBatchKey s of
            None \<Rightarrow> (Inl (TypeError ''setShippingProvider''), s)
          | Some currVaccineBatch \<Rightarrow>
              (let currVaccineBatch =
                     VaccineBatch_setShippingProvider shippingProvider' currVaccineBatch;
                   currVaccineBatch = VaccineBatch_setShipmentUUID shipmentUUID' currVaccineBatch;
                   currVaccineBatch = VaccineBatch_setShipped currVaccineBatch
               in case updateVaccineBatch currVaccineBatch s of
                    Inl e \<Rightarrow> (Inl e, s)
                  | Inr s' \<Rightarrow> (Inr currVaccineBatch, s'))))"

definition arrived ::
  "error option \<Rightarrow> string \<Rightarrow> string \<Rightarrow> string \<Rightarrow> string \<Rightarrow> VaccineBatch StateList
     \<Rightarrow> (error + VaccineBatch) \<times> VaccineBatch StateList" where
  "arrived listModule caller batchNumber' manufacturer' arrivalDate s =
     (case listModule of
        Some e \<Rightarrow> (Inl e, s)
      | None \<Rightarrow>
         (let vaccineBatchKey = makeKey [batchNumber', manufacturer'] in
          case getVaccineBatch vaccineBatchKey s of
            None \<Rightarrow> (Inl (TypeError ''setArrived''), s)
          | Some currVaccineBatch \<Rightarrow>
              (let currVaccineBatch = VaccineBatch_setArrived currVaccineBatch
               in case updateVaccineBatch currVaccineBatch s of
                    Inl e \<Rightarrow> (Inl e, s)
                  | Inr s' \<Rightarrow> (Inr currVaccineBatch, s'))))"

section \<open>Vaccine doses\<close>

subsection \<open>Class Vaccine\<close>

datatype vaccineState = READY | ISSUED_DOSE | EXPIRED

text \<open>
  \<open>ISSUED_DOSE\<close> is \<^verbatim>\<open>vaccineState.ISSUED\<close> (the name \<open>ISSUED\<close> is taken by the batch
  states).  \<open>mspid\<close> is not assigned by the constructor.
\<close>

record Vaccine =
  key :: "string list"
  vaccineUUID :: string
  batchNum :: string
  expirationDateTime :: string
  manufacturer :: string
  issueDateTime :: "string option"
  currentState :: "vaccineState option"
  issuer :: "string option"
  recipient :: "string option"
  mspid :: "string option"

definition Vaccine_createInstance :: "string \<Rightarrow> string \<Rightarrow> string \<Rightarrow> string \<Rightarrow> Vaccine" where
  "Vaccine_createInstance vaccineUUID' batchNum' expirationDateTime' manufacturer' =
     \<lparr> key = makeKey [vaccineUUID'],
       vaccineUUID = vaccineUUID',
       batchNum = batchNum',
       expirationDateTime = expirationDateTime',
       manufacturer = manufacturer',
       issueDateTime = None,
       currentState = None,
       issuer = None,
       recipient = None,
       mspid = None \<rparr>"

definition Vaccine_setIssued :: "Vaccine \<Rightarrow> Vaccine" where
  "Vaccine_setIssued v = v\<lparr>Vaccine.currentState := Some ISSUED_DOSE\<rparr>"

definition Vaccine_setIssuer :: "string \<Rightarrow> Vaccine \<Rightarrow> Vaccine" where
  "Vaccine_setIssuer newIssuer v = v\<lparr>Vaccine.issuer := Some newIssuer\<rparr>"

definition Vaccine_setRecipient :: "string \<Rightarrow> Vaccine \<Rightarrow> Vaccine" where
  "Vaccine_setRecipient newRecipient v = v\<lparr>Vaccine.recipient := Some newRecipient\<rparr>"

definition Vaccine_setOwnerMSP :: "string \<Rightarrow> Vaccine \<Rightarrow> Vaccine" where
  "Vaccine_setOwnerMSP i v = v\<lparr>Vaccine.mspid := Some i\<rparr>"

text \<open>
  Class \<^verbatim>\<open>Vaccine\<close> declares getters and setters for the UUID, the batch number, the
  expiration date, the manufacturer, the issuer, the recipient and the owner's MSP, and the
  state methods; it declares no \<^verbatim>\<open>setIssueDateTime\<close>.  Calling it is a call of
  \<^verbatim>\<open>undefined\<close> and throws a \<^verbatim>\<open>TypeError\<close>.
\<close>

definition Vaccine_setIssueDateTime :: "string \<Rightarrow> Vaccine \<Rightarrow> error + Vaccine" where
  "Vaccine_setIssueDateTime newIssueDateTime v = Inl (TypeError ''setIssueDateTime'')"

subsection \<open>Class VaccineList\<close>

definition addVaccine :: "Vaccine \<Rightarrow> Vaccine StateList \<Rightarrow> Vaccine StateList" where
  "addVaccine vaccine s = addState Vaccine.key vaccine s"

subsection \<open>Class VaccineContract\<close>

definition VaccineContract_issue ::
  "string \<Rightarrow> string \<Rightarrow> string \<Rightarrow> string \<Rightarrow> string \<Rightarrow> string \<Rightarrow> string \<Rightarrow> string
     \<Rightarrow> Vaccine StateList \<Rightarrow> (error + Vaccine) \<times> Vaccine StateList" where
  "VaccineContract_issue caller vaccineUUID' batchNum' manufacturer' issuer' recipient'
       expirationDateTime' issueDateTime' s =
     (let currVaccine = Vaccine_createInstance vaccineUUID' batchNum' expirationDateTime'
                          manufacturer';
          currVaccine = Vaccine_setIssued currVaccine;
          currVaccine = Vaccine_setIssuer issuer' currVaccine;
          currVaccine = Vaccine_setRecipient recipient' currVaccine
      in case Vaccine_setIssueDateTime issueDateTime' currVaccine of
           Inl e \<Rightarrow> (Inl e, s)
         | Inr currVaccine \<Rightarrow>
             (let currVaccine = Vaccine_setOwnerMSP caller currVaccine
              in (Inr currVaccine, addVaccine currVaccine s)))"

section \<open>Shipments\<close>

datatype shipmentState = LEFTSOURCE | ARRIVEDDEST

subsection \<open>Class Shipment, with the date-time fields\<close>

text \<open>
  The class of \<^verbatim>\<open>manufacturer/contract/lib/shipment.js\<close>.  The constructor does not assign
  \<open>currentState\<close>; it is \<^verbatim>\<open>undefined\<close> (\<open>None\<close>) until \<^verbatim>\<open>setLeftSource\<close> or
  \<^verbatim>\<open>setArrivedDest\<close> runs.
\<close>

record Shipment =
  key :: "string list"
  shipmentUUID :: string
  shipmentProvider :: string
  source :: string
  destination :: string
  vehicleUUID :: "string option"
  vehicleOperator :: "string option"
  currentLocation :: "string option"
  currentTemp :: "string option"
  timestamp :: "string option"
  shipDateTime :: "string option"
  arrivalDateTime :: "string option"
  mspid :: "string option"
  currentState :: "shipmentState option"

definition Shipment_createInstance :: "string \<Rightarrow> string \<Rightarrow> string \<Rightarrow> string \<Rightarrow> Shipment" where
  "Shipment_createInstance shipmentUUID' shipmentProvider' source' destination' =
     \<lparr> key = makeKey [shipmentUUID'],
       shipmentUUID = shipmentUUID',
       shipmentProvider = shipmentProvider',
       source = source',
       destination = destination',
       vehicleUUID = None,
       vehicleOperator = None,
       currentLocation = None,
       currentTemp = None,
       timestamp = None,
       shipDateTime = None,
       arrivalDateTime = None,
       mspid = None,
       currentState = None \<rparr>"

text \<open>
  The constructor, on an object that carries attributes already (the stored attributes of
  a shipment): after \<^verbatim>\<open>Object.assign(this, obj)\<close> it sets the vehicle, the operator, the
  location, the temperature, the timestamp, the ship date, the arrival date and the owner
  MSP to \<^verbatim>\<open>null\<close>.  It does not assign \<open>currentState\<close>.
\<close>

definition Shipment_constructor :: "Shipment \<Rightarrow> Shipment" where
  "Shipment_constructor obj =
     obj\<lparr> Shipment.key := makeKey [Shipment.shipmentUUID obj],
          Shipment.vehicleUUID := None,
          Shipment.vehicleOperator := None,
          Shipment.currentLocation := None,
          Shipment.currentTemp := None,
          Shipment.timestamp := None,
          Shipment.shipDateTime := None,
          Shipment.arrivalDateTime := None,
          Shipment.mspid := None \<rparr>"

definition Shipment_setVehicleUUID :: "string \<Rightarrow> Shipment \<Rightarrow> Shipment" where
  "Shipment_setVehicleUUID newVehicleUUID x = x\<lparr>Shipment.vehicleUUID := Some newVehicleUUID\<rparr>"

definition Shipment_setVehicleOperator :: "string \<Rightarrow> Shipment \<Rightarrow> Shipment" where
  "Shipment_setVehicleOperator newVehicleOperator x =
     x\<lparr>Shipment.vehicleOperator := Some newVehicleOperator\<rparr>"

definition Shipment_setCurrentLocation :: "string \<Rightarrow> Shipment \<Rightarrow> Shipment" where
  "Shipment_setCurrentLocation newCurrentLocation x =
     x\<lparr>Shipment.currentLocation := Some newCurrentLocation\<rparr>"

definition Shipment_setCurrentTemp :: "string \<Rightarrow> Shipment \<Rightarrow> Shipment" where
  "Shipment_setCurrentTemp newCurrentTemp x = x\<lparr>Shipment.currentTemp := Some newCurrentTemp\<rparr>"

definition Shipment_setTimestamp :: "string \<Rightarrow> Shipment \<Rightarrow> Shipment" where
  "Shipment_setTimestamp newTimestamp x = x\<lparr>Shipment.timestamp := Some newTimestamp\<rparr>"

definition Shipment_setShipDateTime :: "string \<Rightarrow> Shipment \<Rightarrow> Shipment" where
  "Shipment_setShipDateTime newShipDateTime x = x\<lparr>Shipment.shipDateTime := Some newShipDateTime\<rparr>"

definition Shipment_getShipDateTime :: "Shipment \<Rightarrow> string option" where
  "Shipment_getShipDateTime x = Shipment.shipDateTime x"

definition Shipment_setArrivalDateTime :: "string \<Rightarrow> Shipment \<Rightarrow> Shipment" where
  "Shipment_setArrivalDateTime newArrivalDateTime x =
     x\<lparr>Shipment.arrivalDateTime := Some newArrivalDateTime\<rparr>"

definition Shipment_getArrivalDateTime :: "Shipment \<Rightarrow> string option" where
  "Shipment_getArrivalDateTime x = Shipment.arrivalDateTime x"

definition Shipment_setLeftSource :: "Shipment \<Rightarrow> Shipment" where
  "Shipment_setLeftSource x = x\<lparr>Shipment.currentState := Some LEFTSOURCE\<rparr>"

definition Shipment_setArrivedDest :: "Shipment \<Rightarrow> Shipment" where
  "Shipment_setArrivedDest x = x\<lparr>Shipment.currentState := Some ARRIVEDDEST\<rparr>"

definition addShipment :: "Shipment \<Rightarrow> Shipment StateList \<Rightarrow> Shipment StateList" where
  "addShipment shipment s = addState Shipment.key shipment s"

definition getShipment :: "string list \<Rightarrow> Shipment StateList \<Rightarrow> Shipment option" where
  "getShipment k s = getState Shipment_constructor k s"

definition updateShipment :: "Shipment \<Rightarrow> Shipment StateList \<Rightarrow> error + Shipment StateList" where
  "updateShipment shipment s = updateState Shipment.key shipment s"

subsection \<open>Class ShipmentContract over that class\<close>

text \<open>
  The four transactions have the same text in both copies of the shipment contract.  The
  lines that would record the caller's MSP in \<open>orderShipment\<close> are commented out.
\<close>

definition orderShipment ::
  "string \<Rightarrow> string \<Rightarrow> string \<Rightarrow> string \<Rightarrow> string \<Rightarrow> Shipment StateList
     \<Rightarrow> (error + Shipment) \<times> Shipment StateList" where
  "orderShipment caller shipmentUUID' shipmentProvider' source' destination' s =
     (let shipment = Shipment_createInstance shipmentUUID' shipmentProvider' source' destination'
      in (Inr shipment, addShipment shipment s))"

definition shipShipment ::
  "string \<Rightarrow> string \<Rightarrow> string \<Rightarrow> string \<Rightarrow> string \<Rightarrow> string \<Rightarrow> string \<Rightarrow> Shipment StateList
     \<Rightarrow> (error + Shipment) \<times> Shipment StateList" where
  "shipShipment caller shipmentUUID' vehicleUUID' source' timestamp' vehicleOperator'
       currentTemp' s =
     (let primaryKey = makeKey [shipmentUUID'] in
      case getShipment primaryKey s of
        None \<Rightarrow> (Inl (TypeError ''getShipDateTime''), s)
      | Some shipment \<Rightarrow>
          if Shipment_getShipDateTime shipment \<noteq> None
          then (Inl (Error ''has already been shipped''), s)
          else
            (let shipment = Shipment_setLeftSource shipment;
                 shipment = Shipment_setShipDateTime timestamp' shipment;
                 shipment = Shipment_setVehicleUUID vehicleUUID' shipment;
                 shipment = Shipment_setVehicleOperator vehicleOperator' shipment;
                 shipment = Shipment_setCurrentLocation source' shipment;
                 shipment = Shipment_setCurrentTemp currentTemp' shipment;
                 shipment = Shipment_setTimestamp timestamp' shipment
             in case updateShipment shipment s of
                  Inl e \<Rightarrow> (Inl e, s)
                | Inr s' \<Rightarrow> (Inr shipment, s')))"

definition updateLocationTemp ::
  "string \<Rightarrow> string \<Rightarrow> string \<Rightarrow> string \<Rightarrow> string \<Rightarrow> Shipment StateList
     \<Rightarrow> (error + Shipment) \<times> Shipment StateList" where
  "updateLocationTemp caller shipmentUUID' timestamp' currentLocation' currentTemp' s =
     (let primaryKey = makeKey [shipmentUUID'] in
      case getShipment primaryKey s of
        None \<Rightarrow> (Inl (TypeError ''setCurrentLocation''), s)
      | Some shipment \<Rightarrow>
          (let shipment = Shipment_setCurrentLocation currentLocation' shipment;
               shipment = Shipment_setCurrentTemp currentTemp' shipment;
               shipment = Shipment_setTimestamp timestamp' shipment
           in case updateShipment shipment s of
                Inl e \<Rightarrow> (Inl e, s)
              | Inr s' \<Rightarrow> (Inr shipment, s')))"

definition shipmentArrival ::
  "string \<Rightarrow> string \<Rightarrow> string \<Rightarrow> Shipment StateList
     \<Rightarrow> (error + Shipment) \<times> Shipment StateList" where
  "shipmentArrival caller shipmentUUID' timestamp' s =
     (let primaryKey = makeKey [shipmentUUID'] in
      case getShipment primaryKey s of
        None \<Rightarrow> (Inl (TypeError ''getArrivalDateTime''), s)
      | Some shipment \<Rightarrow>
          if Shipment_getArrivalDateTime shipment \<noteq> None
          then (Inl (Error ''has already arrived''), s)
          else
            (let shipment = Shipment_setArrivedDest shipment;
                 shipment = Shipment_setArrivalDateTime timestamp' shipment
             in case updateShipment shipment s of
                  Inl e \<Rightarrow> (Inl e, s)
                | Inr s' \<Rightarrow> (Inr shipment, s')))"

subsection \<open>Class Shipment of the distributor\<close>

text \<open>
  The class of \<^verbatim>\<open>distributor/contract/lib/shipment.js\<close>, which the distributor's
  \<^verbatim>\<open>shipmentcontract.js\<close> loads.  Its constructor sets \<open>tempTimestamp\<close>, \<open>shipDate\<close>
  and \<open>arrivalDate\<close> to \<^verbatim>\<open>null\<close>; it has no field \<^verbatim>\<open>shipDateTime\<close>,
  \<^verbatim>\<open>arrivalDateTime\<close> or \<^verbatim>\<open>timestamp\<close>, and \<open>mspid\<close> and \<open>currentState\<close> are not
  assigned by the constructor.
\<close>

record Shipment_dist =
  key :: "string list"
  shipmentUUID :: string
  shipmentProvider :: string
  source :: string
  destination :: string
  vehicleUUID :: "string option"
  vehicleOperator :: "string option"
  currentLocation :: "string option"
  currentTemp :: "string option"
  tempTimestamp :: "string option"
  shipDate :: "string option"
  arrivalDate :: "string option"
  mspid :: "string option"
  currentState :: "shipmentState option"

definition Shipment_dist_createInstance ::
  "string \<Rightarrow> string \<Rightarrow> string \<Rightarrow> string \<Rightarrow> Shipment_dist" where
  "Shipment_dist_createInstance shipmentUUID' shipmentProvider' source' destination' =
     \<lparr> key = makeKey [shipmentUUID'],
       shipmentUUID = shipmentUUID',
       shipmentProvider = shipmentProvider',
       source = source',
       destination = destination',
       vehicleUUID = None,
       vehicleOperator = None,
       currentLocation = None,
       currentTemp = None,
       tempTimestamp = None,
       shipDate = None,
       arrivalDate = None,
       mspid = None,
       currentState = None \<rparr>"

text \<open>
  The constructor, on an object that carries attributes already: after
  \<^verbatim>\<open>Object.assign(this, obj)\<close> it sets the seven fields from \<open>vehicleUUID\<close> to
  \<open>arrivalDate\<close> to \<^verbatim>\<open>null\<close>.
\<close>

definition Shipment_dist_constructor :: "Shipment_dist \<Rightarrow> Shipment_dist" where
  "Shipment_dist_constructor obj =
     obj\<lparr> Shipment_dist.key := makeKey [Shipment_dist.shipmentUUID obj],
          Shipment_dist.vehicleUUID := None,
          Shipment_dist.vehicleOperator := None,
          Shipment_dist.currentLocation := None,
          Shipment_dist.currentTemp := None,
          Shipment_dist.tempTimestamp := None,
          Shipment_dist.shipDate := None,
          Shipment_dist.arrivalDate := None \<rparr>"

definition Shipment_dist_setVehicleUUID :: "string \<Rightarrow> Shipment_dist \<Rightarrow> Shipment_dist" where
  "Shipment_dist_setVehicleUUID newVehicleUUID x =
     x\<lparr>Shipment_dist.vehicleUUID := Some newVehicleUUID\<rparr>"

definition Shipment_dist_setVehicleOperator :: "string \<Rightarrow> Shipment_dist \<Rightarrow> Shipment_dist" where
  "Shipment_dist_setVehicleOperator newVehicleOperator x =
     x\<lparr>Shipment_dist.vehicleOperator := Some newVehicleOperator\<rparr>"

definition Shipment_dist_setCurrentLocation :: "string \<Rightarrow> Shipment_dist \<Rightarrow> Shipment_dist" where
  "Shipment_dist_setCurrentLocation newCurrentLocation x =
     x\<lparr>Shipment_dist.currentLocation := Some newCurrentLocation\<rparr>"

definition Shipment_dist_setCurrentTemp :: "string \<Rightarrow> Shipment_dist \<Rightarrow> Shipment_dist" where
  "Shipment_dist_setCurrentTemp newCurrentTemp x =
     x\<lparr>Shipment_dist.currentTemp := Some newCurrentTemp\<rparr>"

definition Shipment_dist_setLeftSource :: "Shipment_dist \<Rightarrow> Shipment_dist" where
  "Shipment_dist_setLeftSource x = x\<lparr>Shipment_dist.currentState := Some LEFTSOURCE\<rparr>"

definition Shipment_dist_setArrivedDest :: "Shipment_dist \<Rightarrow> Shipment_dist" where
  "Shipment_dist_setArrivedDest x = x\<lparr>Shipment_dist.currentState := Some ARRIVEDDEST\<rparr>"

text \<open>
  The distributor's class declares \<^verbatim>\<open>setTempTimestamp\<close>, \<^verbatim>\<open>setShipDate\<close>,
  \<^verbatim>\<open>getShipDate\<close>, \<^verbatim>\<open>setArrivalDate\<close> and \<^verbatim>\<open>getArrivalDate\<close>.  The five methods
  below, which the contract calls, are not declared: each call throws a \<^verbatim>\<open>TypeError\<close>.
\<close>

definition Shipment_dist_getShipDateTime :: "Shipment_dist \<Rightarrow> error + string option" where
  "Shipment_dist_getShipDateTime x = Inl (TypeError ''getShipDateTime'')"

definition Shipment_dist_setShipDateTime :: "string \<Rightarrow> Shipment_dist \<Rightarrow> error + Shipment_dist" where
  "Shipment_dist_setShipDateTime newShipDateTime x = Inl (TypeError ''setShipDateTime'')"

definition Shipment_dist_setTimestamp :: "string \<Rightarrow> Shipment_dist \<Rightarrow> error + Shipment_dist" where
  "Shipment_dist_setTimestamp newTimestamp x = Inl (TypeError ''setTimestamp'')"

definition Shipment_dist_getArrivalDateTime :: "Shipment_dist \<Rightarrow> error + string option" where
  "Shipment_dist_getArrivalDateTime x = Inl (TypeError ''getArrivalDateTime'')"

definition Shipment_dist_setArrivalDateTime ::
  "string \<Rightarrow> Shipment_dist \<Rightarrow> error + Shipment_dist" where
  "Shipment_dist_setArrivalDateTime newArrivalDateTime x = Inl (TypeError ''setArrivalDateTime'')"

definition addShipment_dist ::
  "Shipment_dist \<Rightarrow> Shipment_dist StateList \<Rightarrow> Shipment_dist StateList" where
  "addShipment_dist shipment s = addState Shipment_dist.key shipment s"

definition getShipment_dist :: "string list \<Rightarrow> Shipment_dist StateList \<Rightarrow> Shipment_dist option" where
  "getShipment_dist k s = getState Shipment_dist_constructor k s"

definition updateShipment_dist ::
  "Shipment_dist \<Rightarrow> Shipment_dist StateList \<Rightarrow> error + Shipment_dist StateList" where
  "updateShipment_dist shipment s = updateState Shipment_dist.key shipment s"

subsection \<open>Class ShipmentContract of the distributor\<close>

definition orderShipment_dist ::
  "string \<Rightarrow> string \<Rightarrow> string \<Rightarrow> string \<Rightarrow> string \<Rightarrow> Shipment_dist StateList
     \<Rightarrow> (error + Shipment_dist) \<times> Shipment_dist StateList" where
  "orderShipment_dist caller shipmentUUID' shipmentProvider' source' destination' s =
     (let shipment = Shipment_dist_createInstance shipmentUUID' shipmentProvider' source'
                       destination'
      in (Inr shipment, addShipment_dist shipment s))"

definition shipShipment_dist ::
  "string \<Rightarrow> string \<Rightarrow> string \<Rightarrow> string \<Rightarrow> string \<Rightarrow> string \<Rightarrow> string \<Rightarrow> Shipment_dist StateList
     \<Rightarrow> (error + Shipment_dist) \<times> Shipment_dist StateList" where
  "shipShipment_dist caller shipmentUUID' vehicleUUID' source' timestamp' vehicleOperator'
       currentTemp' s =
     (let primaryKey = makeKey [shipmentUUID'] in
      case getShipment_dist primaryKey s of
        None \<Rightarrow> (Inl (TypeError ''getShipDateTime''), s)
      | Some shipment \<Rightarrow>
         (case Shipment_dist_getShipDateTime shipment of
            Inl e \<Rightarrow> (Inl e, s)
          | Inr shipped \<Rightarrow>
              if shipped \<noteq> None then (Inl (Error ''has already been shipped''), s)
              else
                (let shipment = Shipment_dist_setLeftSource shipment in
                 case Shipment_dist_setShipDateTime timestamp' shipment of
                   Inl e \<Rightarrow> (Inl e, s)
                 | Inr shipment \<Rightarrow>
                     (let shipment = Shipment_dist_setVehicleUUID vehicleUUID' shipment;
                          shipment = Shipment_dist_setVehicleOperator vehicleOperator' shipment;
                          shipment = Shipment_dist_setCurrentLocation source' shipment;
                          shipment = Shipment_dist_setCurrentTemp currentTemp' shipment
                      in case Shipment_dist_setTimestamp timestamp' shipment of
                           Inl e \<Rightarrow> (Inl e, s)
                         | Inr shipment \<Rightarrow>
                             (case updateShipment_dist shipment s of
                                Inl e \<Rightarrow> (Inl e, s)
                              | Inr s' \<Rightarrow> (Inr shipment, s'))))))"

definition updateLocationTemp_dist ::
  "string \<Rightarrow> string \<Rightarrow> string \<Rightarrow> string \<Rightarrow> string \<Rightarrow> Shipment_dist StateList
     \<Rightarrow> (error + Shipment_dist) \<times> Shipment_dist StateList" where
  "updateLocationTemp_dist caller shipmentUUID' timestamp' currentLocation' currentTemp' s =
     (let primaryKey = makeKey [shipmentUUID'] in
      case getShipment_dist primaryKey s of
        None \<Rightarrow> (Inl (TypeError ''setCurrentLocation''), s)
      | Some shipment \<Rightarrow>
          (let shipment = Shipment_dist_setCurrentLocation currentLocation' shipment;
               shipment = Shipment_dist_setCurrentTemp currentTemp' shipment
           in case Shipment_dist_setTimestamp timestamp' shipment of
                Inl e \<Rightarrow> (Inl e, s)
              | Inr shipment \<Rightarrow>
                  (case updateShipment_dist shipment s of
                     Inl e \<Rightarrow> (Inl e, s)
                   | Inr s' \<Rightarrow> (Inr shipment, s'))))"

definition shipmentArrival_dist ::
  "string \<Rightarrow> string \<Rightarrow> string \<Rightarrow> Shipment_dist StateList
     \<Rightarrow> (error + Shipment_dist) \<times> Shipment_dist StateList" where
  "shipmentArrival_dist caller shipmentUUID' timestamp' s =
     (let primaryKey = makeKey [shipmentUUID'] in
      case getShipment_dist primaryKey s of
        None \<Rightarrow> (Inl (TypeError ''getArrivalDateTime''), s)
      | Some shipment \<Rightarrow>
         (case Shipment_dist_getArrivalDateTime shipment of
            Inl e \<Rightarrow> (Inl e, s)
          | Inr arrived_at \<Rightarrow>
              if arrived_at \<noteq> None then (Inl (Error ''has already arrived''), s)
              else
                (let shipment = Shipment_dist_setArrivedDest shipment in
                 case Shipment_dist_setArrivalDateTime timestamp' shipment of
                   Inl e \<Rightarrow> (Inl e, s)
                 | Inr shipment \<Rightarrow>
                     (case updateShipment_dist shipment s of
                        Inl e \<Rightarrow> (Inl e, s)
                      | Inr s' \<Rightarrow> (Inr shipment, s')))))"

section \<open>Serialisation\<close>

text \<open>
  \<^verbatim>\<open>toBuffer\<close> is \<^verbatim>\<open>Buffer.from(JSON.stringify(this))\<close>.  The document that
  \<^verbatim>\<open>JSON.stringify\<close> writes is kept as a tree; an object lists its members in order.
\<close>

datatype json =
    JNull
  | JBool bool
  | JNum int
  | JStr string
  | JArr "json list"
  | JObj "(string \<times> json) list"

definition json_of_nullable :: "string option \<Rightarrow> json" where
  "json_of_nullable x = (case x of None \<Rightarrow> JNull | Some t \<Rightarrow> JStr t)"

text \<open>
  A property whose content is \<^verbatim>\<open>undefined\<close> is left out of the document; one that is
  \<^verbatim>\<open>null\<close> is written as \<^verbatim>\<open>null\<close>.
\<close>

definition json_member_if_defined :: "string \<Rightarrow> string option \<Rightarrow> (string \<times> json) list" where
  "json_member_if_defined name x = (case x of None \<Rightarrow> [] | Some t \<Rightarrow> [(name, JStr t)])"

text \<open>
  A \<^verbatim>\<open>Set\<close> keeps its elements in internal slots, not in enumerable properties:
  \<^verbatim>\<open>JSON.stringify(new Set(["a"]))\<close> is \<^verbatim>\<open>{}\<close>, whatever the elements.
\<close>

definition json_of_Set :: "string set \<Rightarrow> json" where
  "json_of_Set S = JObj []"

definition VaccineBatch_getClass :: string where
  "VaccineBatch_getClass = ''org.vaccine.vaccineBatch''"

text \<open>
  Modelled from the spec: the constructor of the base class \<^verbatim>\<open>State\<close> is not among the
  sources; section 3 gives a keyed state record a \<open>typeTag\<close> and \<open>keyParts\<close>, the first two
  members below.  The other members follow in the order in which the constructor of
  \<^verbatim>\<open>VaccineBatch\<close> and then the setters of \<open>mspid\<close> and \<open>price\<close> create them.
\<close>

definition VaccineBatch_toBuffer :: "VaccineBatch \<Rightarrow> json" where
  "VaccineBatch_toBuffer b =
     JObj ([ (''typeTag'', JStr VaccineBatch_getClass),
             (''keyParts'', JArr (map JStr (VaccineBatch.key b))),
             (''vaccineName'', JStr (VaccineBatch.vaccineName b)),
             (''batchNumber'', JStr (VaccineBatch.batchNumber b)),
             (''quantity'', JStr (VaccineBatch.quantity b)),
             (''manufacturer'', JStr (VaccineBatch.manufacturer b)),
             (''manufactureDate'', JStr (VaccineBatch.manufactureDate b)),
             (''purchaser'', json_of_nullable (VaccineBatch.purchaser b)),
             (''purchaseDate'', json_of_nullable (VaccineBatch.purchaseDate b)),
             (''currentState'',
                (case VaccineBatch.currentState b of
                   None \<Rightarrow> JNull
                 | Some st \<Rightarrow> JNum (batchState_code st))),
             (''approver'', json_of_nullable (VaccineBatch.approver b)),
             (''shippingProvider'', json_of_nullable (VaccineBatch.shippingProvider b)),
             (''shipmentUUID'', json_of_nullable (VaccineBatch.shipmentUUID b)),
             (''temperature'', json_of_nullable (VaccineBatch.temperature b)),
             (''timestamp'', json_of_nullable (VaccineBatch.timestamp b)),
             (''entityAllocated'', json_of_nullable (VaccineBatch.entityAllocated b)),
             (''ready'', JBool (VaccineBatch.ready b)),
             (''rawMaterialBatchSet'', json_of_Set (VaccineBatch.rawMaterialBatchSet b)) ]
           @ json_member_if_defined ''mspid'' (VaccineBatch.mspid b)
           @ json_member_if_defined ''price'' (VaccineBatch.price b))"

section \<open>Query results\<close>

subsection \<open>The iterator of the platform\<close>

text \<open>
  What \<^verbatim>\<open>iterator.next()\<close> returns is \<^verbatim>\<open>{ done, value }\<close>; the entry under
  \<^verbatim>\<open>value\<close> may be missing.  An entry carries \<open>entry_key\<close> (\<^verbatim>\<open>key\<close>), \<open>entry_buffer\<close>
  (the text of the buffer \<^verbatim>\<open>value\<close>), \<open>txId\<close>, \<open>entry_timestamp\<close> (\<^verbatim>\<open>timestamp\<close>, as
  \<^verbatim>\<open>seconds.low\<close> and \<^verbatim>\<open>nanos\<close>, when the entry has one) and \<open>is_delete\<close>.
\<close>

record entry =
  entry_key :: string
  entry_buffer :: string
  txId :: string
  entry_timestamp :: "(int \<times> nat) option"
  is_delete :: bool

datatype res = Res (res_done: bool) (res_entry: "entry option")

text \<open>
  An iterator is the results it has yet to hand out and whether it has been closed.  Once
  the results are used up, \<^verbatim>\<open>next()\<close> answers \<^verbatim>\<open>{ done: true }\<close> without an entry.
\<close>

record iterator =
  pending :: "res list"
  closed :: bool

definition iterator_next :: "iterator \<Rightarrow> res \<times> iterator" where
  "iterator_next it =
     (case pending it of
        [] \<Rightarrow> (Res True None, it)
      | r # rs \<Rightarrow> (r, it\<lparr>pending := rs\<rparr>))"

definition iterator_close :: "iterator \<Rightarrow> iterator" where
  "iterator_close it = it\<lparr>closed := True\<rparr>"

subsection \<open>getAllResults\<close>

text \<open>
  \<^verbatim>\<open>JSON.parse\<close> belongs to the platform and is a parameter \<open>parse\<close> (\<open>None\<close> when it
  throws).  The \<^verbatim>\<open>catch\<close> of the source then keeps the text itself.
\<close>

datatype parsed = Parsed json | Raw string

definition parse_or_text :: "(string \<Rightarrow> json option) \<Rightarrow> string \<Rightarrow> parsed" where
  "parse_or_text parse text = (case parse text of Some j \<Rightarrow> Parsed j | None \<Rightarrow> Raw text)"

record jsonRes =
  TxId :: "string option"
  Timestamp :: "int option"
  IsDelete :: "string option"
  Value :: "parsed option"
  Key :: "string option"
  Record :: "parsed option"

text \<open>
  One entry of a history query.  \<^verbatim>\<open>res.value.timestamp.seconds.low\<close> throws on an entry
  without a timestamp.  The date is \<^verbatim>\<open>seconds.low * 1000\<close> milliseconds with the
  milliseconds set to \<^verbatim>\<open>nanos / 1000000\<close>, kept as a number of milliseconds.
\<close>

definition historyResult :: "(string \<Rightarrow> json option) \<Rightarrow> entry \<Rightarrow> error + jsonRes" where
  "historyResult parse e =
     (case entry_timestamp e of
        None \<Rightarrow> Inl (TypeError ''seconds'')
      | Some (low, nanos) \<Rightarrow>
          Inr \<lparr> TxId = Some (txId e),
                Timestamp = Some (low * 1000 + int (nanos div 1000000)),
                IsDelete = (if is_delete e then Some ''true'' else None),
                Value = (if is_delete e then None
                         else Some (parse_or_text parse (entry_buffer e))),
                Key = None,
                Record = None \<rparr>)"

definition queryResult :: "(string \<Rightarrow> json option) \<Rightarrow> entry \<Rightarrow> jsonRes" where
  "queryResult parse e =
     \<lparr> TxId = None,
       Timestamp = None,
       IsDelete = None,
       Value = None,
       Key = Some (entry_key e),
       Record = Some (parse_or_text parse (entry_buffer e)) \<rparr>"

text \<open>
  The body of the loop after \<^verbatim>\<open>res = await iterator.next()\<close>: the three
  \<^verbatim>\<open>console.log\<close> lines read \<^verbatim>\<open>res.value.value\<close> and throw when the result has no
  entry; an entry with an empty buffer adds nothing.
\<close>

definition materialize ::
  "(string \<Rightarrow> json option) \<Rightarrow> bool \<Rightarrow> res \<Rightarrow> jsonRes list \<Rightarrow> error + jsonRes list" where
  "materialize parse isHistory r allResults =
     (case res_entry r of
        None \<Rightarrow> Inl (TypeError ''value'')
      | Some e \<Rightarrow>
          if entry_buffer e \<noteq> []
          then (if isHistory
                then (case historyResult parse e of
                        Inl err \<Rightarrow> Inl err
                      | Inr j \<Rightarrow> Inr (allResults @ [j]))
                else Inr (allResults @ [queryResult parse e]))
          else Inr allResults)"

text \<open>
  The loop \<^verbatim>\<open>while (true)\<close>.  It ends because an iterator that is used up answers
  \<^verbatim>\<open>done\<close>.  The iterator is closed in one place, under \<^verbatim>\<open>if (res.done)\<close>; a thrown
  error leaves the function at once.
\<close>

function getAllResults_loop ::
  "(string \<Rightarrow> json option) \<Rightarrow> bool \<Rightarrow> jsonRes list \<Rightarrow> iterator
     \<Rightarrow> (error + jsonRes list) \<times> iterator" where
  "getAllResults_loop parse isHistory allResults it =
     (case iterator_next it of
        (r, it') \<Rightarrow>
          (case materialize parse isHistory r allResults of
             Inl err \<Rightarrow> (Inl err, it')
           | Inr allResults' \<Rightarrow>
               if res_done r then (Inr allResults', iterator_close it')
               else getAllResults_loop parse isHistory allResults' it'))"
  by pat_completeness auto
termination
  by (relation "measure (\<lambda>(parse, isHistory, allResults, it). length (pending it))")
     (auto simp: iterator_next_def split: list.splits)

declare getAllResults_loop.simps [simp del]

definition getAllResults ::
  "(string \<Rightarrow> json option) \<Rightarrow> iterator \<Rightarrow> bool \<Rightarrow> (error + jsonRes list) \<times> iterator" where
  "getAllResults parse it isHistory = getAllResults_loop parse isHistory [] it"

section \<open>Example states\<close>

text \<open>
  A raw material of manufacturer Acme, created by organisation Org1MSP.
\<close>

definition example_material :: RawMaterial where
  "example_material =
     RawMaterial_setOwnerMSP ''Org1MSP''
       (RawMaterial_createInstance ''Lipid'' ''B-1'' ''10'' ''Acme'' ''2021-01-01'')"

definition example_materials :: "RawMaterial StateList" where
  "example_materials = addRawMaterial example_material Map.empty"

text \<open>
  The attributes that the second version of \<open>purchaseMaterial\<close> stores when Pfizer buys
  that material through organisation Org2MSP, and the ones it stores when Moderna buys it
  afterwards through Org3MSP.
\<close>

definition example_material_sold :: RawMaterial where
  "example_material_sold =
     example_material\<lparr>RawMaterial.purchaser := Some ''Pfizer'',
                       RawMaterial.purchaseDate := Some ''2021-02-01'',
                       RawMaterial.price := Some ''500'',
                       RawMaterial.mspid := Some ''Org2MSP''\<rparr>"

definition example_materials_sold :: "RawMaterial StateList" where
  "example_materials_sold = example_materials([''Acme'', ''B-1''] \<mapsto> example_material_sold)"

definition example_material_resold :: RawMaterial where
  "example_material_resold =
     example_material\<lparr>RawMaterial.purchaser := Some ''Moderna'',
                       RawMaterial.purchaseDate := Some ''2021-02-02'',
                       RawMaterial.price := Some ''600'',
                       RawMaterial.mspid := Some ''Org3MSP''\<rparr>"

text \<open>
  The attributes that \<open>addMaterial2\<close> stores for the example material, and a second
  material for the key of the first, as another organisation would create it.
\<close>

definition example_material_mixed :: RawMaterial where
  "example_material_mixed =
     example_material\<lparr>RawMaterial.dateMixedIn := Some ''2021-03-01'',
                       RawMaterial.mspid := None\<rparr>"

definition example_material_again :: RawMaterial where
  "example_material_again =
     RawMaterial_setOwnerMSP ''Org2MSP''
       (RawMaterial_createInstance ''Saline'' ''B-1'' ''99'' ''Acme'' ''2021-02-02'')"

text \<open>
  A vaccine batch of manufacturer Acme, issued by organisation Org1MSP, a second batch for
  the same key, and the attributes that \<open>buy\<close> stores for a sale of the first batch by
  Acme to Clinic and for a later sale by Acme to Mallory.
\<close>

definition example_batch :: VaccineBatch where
  "example_batch =
     VaccineBatch_setOwnerMSP ''Org1MSP''
       (VaccineBatch_setWarehoused
          (VaccineBatch_createInstance ''Vax'' ''VB-1'' ''100'' ''Acme'' ''2021-01-05''))"

definition example_batches :: "VaccineBatch StateList" where
  "example_batches = addVaccineBatch example_batch Map.empty"

definition example_batch_again :: VaccineBatch where
  "example_batch_again =
     VaccineBatch_setOwnerMSP ''Org2MSP''
       (VaccineBatch_setWarehoused
          (VaccineBatch_createInstance ''Other'' ''VB-1'' ''7'' ''Acme'' ''2021-02-05''))"

definition example_batch_sold :: VaccineBatch where
  "example_batch_sold =
     example_batch\<lparr>VaccineBatch.purchaser := Some ''Clinic'',
                    VaccineBatch.purchaseDate := Some ''2021-04-01'',
                    VaccineBatch.currentState := None,
                    VaccineBatch.price := Some ''900''\<rparr>"

definition example_batches_sold :: "VaccineBatch StateList" where
  "example_batches_sold = example_batches([''VB-1'', ''Acme''] \<mapsto> example_batch_sold)"

definition example_batch_resold :: VaccineBatch where
  "example_batch_resold =
     example_batch\<lparr>VaccineBatch.purchaser := Some ''Mallory'',
                    VaccineBatch.purchaseDate := Some ''2021-05-01'',
                    VaccineBatch.currentState := None,
                    VaccineBatch.price := Some ''1''\<rparr>"

text \<open>
  A shipment as \<open>orderShipment\<close> stores it, a second one for the same UUID, the
  attributes that \<open>shipShipment\<close> stores when the shipment leaves Basel, and the ones that
  \<open>updateLocationTemp\<close> stores afterwards.  The same order in the distributor's contract.
\<close>

definition example_shipment :: Shipment where
  "example_shipment = Shipment_createInstance ''S-1'' ''UPS'' ''Basel'' ''Bern''"

definition example_shipments :: "Shipment StateList" where
  "example_shipments = addShipment example_shipment Map.empty"

definition example_shipment_again :: Shipment where
  "example_shipment_again = Shipment_createInstance ''S-1'' ''DHL'' ''Chur'' ''Sion''"

definition example_shipment_shipped :: Shipment where
  "example_shipment_shipped =
     example_shipment\<lparr>Shipment.vehicleUUID := Some ''V-9'',
                       Shipment.vehicleOperator := Some ''Ann'',
                       Shipment.currentLocation := Some ''Basel'',
                       Shipment.currentTemp := Some ''3'',
                       Shipment.timestamp := Some ''08:00'',
                       Shipment.shipDateTime := Some ''08:00'',
                       Shipment.currentState := Some LEFTSOURCE\<rparr>"

definition example_shipments_shipped :: "Shipment StateList" where
  "example_shipments_shipped = example_shipments([''S-1''] \<mapsto> example_shipment_shipped)"

definition example_shipment_located :: Shipment where
  "example_shipment_located =
     example_shipment\<lparr>Shipment.currentLocation := Some ''Olten'',
                       Shipment.currentTemp := Some ''4'',
                       Shipment.timestamp := Some ''09:00'',
                       Shipment.currentState := Some LEFTSOURCE\<rparr>"

definition example_shipments_dist :: "Shipment_dist StateList" where
  "example_shipments_dist =
     addShipment_dist (Shipment_dist_createInstance ''S-1'' ''UPS'' ''Basel'' ''Bern'') Map.empty"

text \<open>
  Iterators of the platform: a \<^verbatim>\<open>JSON.parse\<close> that accepts the text of the empty
  object, an entry, a result set of two entries none of which is marked done (the platform
  answers \<^verbatim>\<open>{ done: true }\<close> after the last one), and an empty result set.
\<close>

definition example_parse :: "string \<Rightarrow> json option" where
  "example_parse text = (if text = ''{}'' then Some (JObj []) else None)"

definition example_entry :: entry where
  "example_entry =
     \<lparr> entry_key = ''S-1'', entry_buffer = ''{}'', txId = ''tx-1'',
       entry_timestamp = Some (1609459200, 5000000), is_delete = False \<rparr>"

definition example_two_results :: iterator where
  "example_two_results =
     \<lparr> pending = [Res False (Some example_entry), Res False (Some example_entry)],
       closed = False \<rparr>"

definition example_no_results :: iterator where
  "example_no_results = \<lparr> pending = [], closed = False \<rparr>"

section \<open>Unfolding the classes\<close>

lemmas RawMaterial_methods =
  RawMaterial_createInstance_def RawMaterial_constructor_def RawMaterial_getPurchaser_def
  RawMaterial_setPurchaser_def RawMaterial_setPurchaseDate_def RawMaterial_setPrice_def
  RawMaterial_getDateMixedIn_def RawMaterial_setDateMixedIn_def RawMaterial_setOwnerMSP_def

lemmas RawMaterialList_methods =
  addRawMaterial_def getRawMaterial_def updateRawMaterial_def
  addState_def getState_def updateState_def makeKey_def

lemmas VaccineBatch_methods =
  VaccineBatch_createInstance_def VaccineBatch_constructor_def VaccineBatch_getPurchaser_def
  VaccineBatch_setPurchaser_def VaccineBatch_setPurchaseDate_def VaccineBatch_setPrice_def
  VaccineBatch_setShipped_def VaccineBatch_setArrived_def VaccineBatch_setWarehoused_def
  VaccineBatch_setShippingProvider_def VaccineBatch_setShipmentUUID_def
  VaccineBatch_addRawMaterial_def VaccineBatch_setOwnerMSP_def

lemmas VaccineBatchList_methods =
  addVaccineBatch_def getVaccineBatch_def updateVaccineBatch_def
  addState_def getState_def updateState_def makeKey_def

lemmas Shipment_methods =
  Shipment_createInstance_def Shipment_constructor_def Shipment_setVehicleUUID_def
  Shipment_setVehicleOperator_def Shipment_setCurrentLocation_def Shipment_setCurrentTemp_def
  Shipment_setTimestamp_def Shipment_setShipDateTime_def Shipment_getShipDateTime_def
  Shipment_setArrivalDateTime_def Shipment_getArrivalDateTime_def Shipment_setLeftSource_def
  Shipment_setArrivedDest_def

lemmas ShipmentList_methods =
  addShipment_def getShipment_def updateShipment_def
  addState_def getState_def updateState_def makeKey_def

lemmas Shipment_dist_methods =
  Shipment_dist_createInstance_def Shipment_dist_constructor_def Shipment_dist_setVehicleUUID_def
  Shipment_dist_setVehicleOperator_def Shipment_dist_setCurrentLocation_def
  Shipment_dist_setCurrentTemp_def Shipment_dist_setLeftSource_def
  Shipment_dist_setArrivedDest_def Shipment_dist_getShipDateTime_def
  Shipment_dist_setShipDateTime_def Shipment_dist_setTimestamp_def
  Shipment_dist_getArrivalDateTime_def Shipment_dist_setArrivalDateTime_def

lemmas ShipmentList_dist_methods =
  addShipment_dist_def getShipment_dist_def updateShipment_dist_def
  addState_def getState_def updateState_def makeKey_def

lemmas getAllResults_eval =
  getAllResults_def getAllResults_loop.simps iterator_next_def iterator_close_def
  materialize_def historyResult_def queryResult_def parse_or_text_def

text \<open>
  \<open>createInstance\<close> is the constructor on an object with the attributes of the call: the
  constructor leaves a new instance as it is.
\<close>

lemma createInstance_is_constructor:
  "RawMaterial_constructor (RawMaterial_createInstance mn bn q man md)
     = RawMaterial_createInstance mn bn q man md"
  "VaccineBatch_constructor (VaccineBatch_createInstance vn bn q man md)
     = VaccineBatch_createInstance vn bn q man md"
  "Shipment_constructor (Shipment_createInstance uuid provider src dst)
     = Shipment_createInstance uuid provider src dst"
  "Shipment_dist_constructor (Shipment_dist_createInstance uuid provider src dst)
     = Shipment_dist_createInstance uuid provider src dst"
  by (simp_all add: RawMaterial_methods VaccineBatch_methods Shipment_methods
      Shipment_dist_methods)

section \<open>Properties of the raw material contract\<close>

text \<open>
  Claim C2.  The first version of \<open>purchaseMaterial\<close> never runs: a request for it fails
  with the \<^verbatim>\<open>SyntaxError\<close> of its file.  In the second version the guard never holds,
  because the record that the transaction reads is built by the constructor, which sets
  the purchaser to null.  Pfizer buys the example material; the purchase of Moderna that
  follows succeeds as well and replaces the stored purchaser, purchase date and price.
\<close>

theorem second_purchase_overwrites_first:
  "purchaseMaterial caller man bn p pr d s = (Inl (SyntaxError ''material''), s)
   \<and> purchaseMaterial2 ''Org2MSP'' ''Acme'' ''B-1'' ''Pfizer'' ''500'' ''2021-02-01''
        example_materials
     = (Inr example_material_sold, example_materials_sold)
   \<and> example_materials_sold [''Acme'', ''B-1''] = Some example_material_sold
   \<and> RawMaterial.purchaser example_material_sold = Some ''Pfizer''
   \<and> purchaseMaterial2 ''Org3MSP'' ''Acme'' ''B-1'' ''Moderna'' ''600'' ''2021-02-02''
        example_materials_sold
     = (Inr example_material_resold,
        example_materials_sold([''Acme'', ''B-1''] \<mapsto> example_material_resold))
   \<and> RawMaterial.purchaser example_material_resold = Some ''Moderna''
   \<and> RawMaterial.purchaseDate example_material_resold = Some ''2021-02-02''
   \<and> RawMaterial.price example_material_resold = Some ''600''"
  by (simp add: purchaseMaterial_def purchaseMaterial2_def RawMaterial_methods
      RawMaterialList_methods Let_def example_materials_def example_materials_sold_def
      example_material_def example_material_sold_def example_material_resold_def)

text \<open>
  Claim C5.  In the first version of the contract \<open>createMaterial\<close> never runs: whatever
  its arguments and the world state, a request for it fails with the \<^verbatim>\<open>SyntaxError\<close> of
  its file and stores nothing, and the key read afterwards holds no record.
\<close>

theorem createMaterial_never_runs:
  "createMaterial caller mn bn q man md s = (Inl (SyntaxError ''material''), s)
   \<and> getRawMaterial (makeKey [man, bn]) (snd (createMaterial caller mn bn q man md Map.empty))
     = None"
  by (simp add: createMaterial_def RawMaterialList_methods)

text \<open>
  The second version does create the record: read at its key afterwards, it has no
  purchaser, purchase date, price or date mixed in, and the five attributes of the call.
\<close>

lemma createMaterial2_then_get:
  "\<exists>m s' m'. createMaterial2 caller mn bn q man md s = (Inr m, s')
        \<and> getRawMaterial (makeKey [man, bn]) s' = Some m'
        \<and> RawMaterial.purchaser m' = None \<and> RawMaterial.purchaseDate m' = None
        \<and> RawMaterial.price m' = None \<and> RawMaterial.dateMixedIn m' = None
        \<and> RawMaterial.materialName m' = mn \<and> RawMaterial.batchNumber m' = bn
        \<and> RawMaterial.quantity m' = q \<and> RawMaterial.manufacturer m' = man
        \<and> RawMaterial.manufactureDate m' = md"
  by (simp add: createMaterial2_def RawMaterial_methods RawMaterialList_methods Let_def)

text \<open>
  Claim C1.  The create transactions that run do not reject an existing key.  For all
  arguments and every world state \<open>createMaterial2\<close> returns the new record and hands it to
  the state list, and so do \<open>issue\<close> of the vaccine batch contract (with a list that loads)
  and \<open>orderShipment\<close>.  On the example states, which hold a record under the key, the
  second create succeeds and replaces the stored record by a different one.
\<close>

theorem create_over_existing_key_succeeds:
  "createMaterial2 caller mn bn q man md s
     = (Inr (RawMaterial_setOwnerMSP caller (RawMaterial_createInstance mn bn q man md)),
        addRawMaterial
          (RawMaterial_setOwnerMSP caller (RawMaterial_createInstance mn bn q man md)) s)
   \<and> VaccineBatchContract_issue None caller vn bn q man md b
     = (Inr (VaccineBatch_setOwnerMSP caller
               (VaccineBatch_setWarehoused (VaccineBatch_createInstance vn bn q man md))),
        addVaccineBatch
          (VaccineBatch_setOwnerMSP caller
             (VaccineBatch_setWarehoused (VaccineBatch_createInstance vn bn q man md))) b)
   \<and> orderShipment caller uuid provider src dst x
     = (Inr (Shipment_createInstance uuid provider src dst),
        addShipment (Shipment_createInstance uuid provider src dst) x)
   \<and> example_materials [''Acme'', ''B-1''] = Some example_material
   \<and> createMaterial2 ''Org2MSP'' ''Saline'' ''B-1'' ''99'' ''Acme'' ''2021-02-02'' example_materials
     = (Inr example_material_again, example_materials([''Acme'', ''B-1''] \<mapsto> example_material_again))
   \<and> example_material_again \<noteq> example_material
   \<and> example_batches [''VB-1'', ''Acme''] = Some example_batch
   \<and> VaccineBatchContract_issue None ''Org2MSP'' ''Other'' ''VB-1'' ''7'' ''Acme'' ''2021-02-05''
        example_batches
     = (Inr example_batch_again, example_batches([''VB-1'', ''Acme''] \<mapsto> example_batch_again))
   \<and> example_batch_again \<noteq> example_batch
   \<and> example_shipments [''S-1''] = Some example_shipment
   \<and> orderShipment ''Org2MSP'' ''S-1'' ''DHL'' ''Chur'' ''Sion'' example_shipments
     = (Inr example_shipment_again, example_shipments([''S-1''] \<mapsto> example_shipment_again))
   \<and> example_shipment_again \<noteq> example_shipment"
proof -
  have material:
    "createMaterial2 caller mn bn q man md s
       = (Inr (RawMaterial_setOwnerMSP caller (RawMaterial_createInstance mn bn q man md)),
          addRawMaterial
            (RawMaterial_setOwnerMSP caller (RawMaterial_createInstance mn bn q man md)) s)"
    for caller mn bn q man md and s :: "RawMaterial StateList"
    by (simp add: createMaterial2_def Let_def)
  have batch:
    "VaccineBatchContract_issue None caller vn bn q man md b
       = (Inr (VaccineBatch_setOwnerMSP caller
                 (VaccineBatch_setWarehoused (VaccineBatch_createInstance vn bn q man md))),
          addVaccineBatch
            (VaccineBatch_setOwnerMSP caller
               (VaccineBatch_setWarehoused (VaccineBatch_createInstance vn bn q man md))) b)"
    for caller vn bn q man md and b :: "VaccineBatch StateList"
    by (simp add: VaccineBatchContract_issue_def Let_def)
  have shipment:
    "orderShipment caller uuid provider src dst x
       = (Inr (Shipment_createInstance uuid provider src dst),
          addShipment (Shipment_createInstance uuid provider src dst) x)"
    for caller uuid provider src dst and x :: "Shipment StateList"
    by (simp add: orderShipment_def Let_def)
  have materials:
    "example_materials [''Acme'', ''B-1''] = Some example_material"
    "example_material_again \<noteq> example_material"
    by (simp_all add: example_materials_def example_material_def example_material_again_def
        RawMaterial_methods RawMaterialList_methods)
  have again:
    "createMaterial2 ''Org2MSP'' ''Saline'' ''B-1'' ''99'' ''Acme'' ''2021-02-02'' example_materials
       = (Inr example_material_again,
          example_materials([''Acme'', ''B-1''] \<mapsto> example_material_again))"
    by (simp add: material example_material_again_def RawMaterial_methods
        RawMaterialList_methods)
  have batches:
    "example_batches [''VB-1'', ''Acme''] = Some example_batch"
    "VaccineBatchContract_issue None ''Org2MSP'' ''Other'' ''VB-1'' ''7'' ''Acme'' ''2021-02-05''
        example_batches
       = (Inr example_batch_again, example_batches([''VB-1'', ''Acme''] \<mapsto> example_batch_again))"
    "example_batch_again \<noteq> example_batch"
    by (simp_all add: batch example_batches_def example_batch_def example_batch_again_def
        VaccineBatch_methods VaccineBatchList_methods)
  have shipments:
    "example_shipments [''S-1''] = Some example_shipment"
    "orderShipment ''Org2MSP'' ''S-1'' ''DHL'' ''Chur'' ''Sion'' example_shipments
       = (Inr example_shipment_again, example_shipments([''S-1''] \<mapsto> example_shipment_again))"
    "example_shipment_again \<noteq> example_shipment"
    by (simp_all add: shipment example_shipments_def example_shipment_def
        example_shipment_again_def Shipment_methods ShipmentList_methods)
  from material batch shipment materials again batches shipments show ?thesis
    by (intro conjI)
qed

section \<open>Who is recorded as the owner's organisation\<close>

lemma create_records_caller:
  "map_option RawMaterial.mspid (snd (createMaterial2 caller mn bn q man md s) [man, bn])
     = Some (Some caller)"
  "map_option VaccineBatch.mspid
     (snd (VaccineBatchContract_issue None caller vn bn q man md b) [bn, man])
     = Some (Some caller)"
  by (simp_all add: createMaterial2_def VaccineBatchContract_issue_def
      RawMaterial_methods RawMaterialList_methods VaccineBatch_methods VaccineBatchList_methods
      Let_def)

lemma orderShipment_records_nobody:
  "map_option Shipment.mspid (snd (orderShipment caller uuid provider src dst x) [uuid])
     = Some None"
  by (simp add: orderShipment_def Shipment_methods ShipmentList_methods Let_def)

lemma purchaseMaterial2_records_caller:
  "case purchaseMaterial2 caller man bn p pr d s of
     (Inl e, s') \<Rightarrow> s' = s
   | (Inr m, s') \<Rightarrow> s' (RawMaterial.key m) = Some m \<and> RawMaterial.mspid m = Some caller"
  by (simp add: purchaseMaterial2_def RawMaterial_methods RawMaterialList_methods Let_def
      split: option.split)

lemma addMaterial2_ignores_caller:
  "case addMaterial2 caller man bn d s of
     (Inl e, s') \<Rightarrow> s' = s
   | (Inr m, s') \<Rightarrow> s' (RawMaterial.key m) = Some m
        \<and> map_option RawMaterial.mspid (getRawMaterial (makeKey [man, bn]) s)
            = Some (RawMaterial.mspid m)"
  by (simp add: addMaterial2_def RawMaterial_methods RawMaterialList_methods Let_def
      split: option.split)

lemma batch_transitions_ignore_caller:
  "case ship None caller bn man provider uuid b of
     (Inl e, b') \<Rightarrow> b' = b
   | (Inr v, b') \<Rightarrow> b' (VaccineBatch.key v) = Some v
        \<and> map_option VaccineBatch.mspid (getVaccineBatch (makeKey [bn, man]) b)
            = Some (VaccineBatch.mspid v)"
  "case arrived None caller bn man d b of
     (Inl e, b') \<Rightarrow> b' = b
   | (Inr v, b') \<Rightarrow> b' (VaccineBatch.key v) = Some v
        \<and> map_option VaccineBatch.mspid (getVaccineBatch (makeKey [bn, man]) b)
            = Some (VaccineBatch.mspid v)"
  by (simp_all add: ship_def arrived_def VaccineBatch_methods VaccineBatchList_methods Let_def
      split: option.split)

lemma shipment_transitions_ignore_caller:
  "case shipShipment caller uuid vehicle src ts operator temp x of
     (Inl e, x') \<Rightarrow> x' = x
   | (Inr v, x') \<Rightarrow> x' (Shipment.key v) = Some v
        \<and> map_option Shipment.mspid (getShipment (makeKey [uuid]) x) = Some (Shipment.mspid v)"
  "case updateLocationTemp caller uuid ts loc temp x of
     (Inl e, x') \<Rightarrow> x' = x
   | (Inr v, x') \<Rightarrow> x' (Shipment.key v) = Some v
        \<and> map_option Shipment.mspid (getShipment (makeKey [uuid]) x) = Some (Shipment.mspid v)"
  "case shipmentArrival caller uuid ts x of
     (Inl e, x') \<Rightarrow> x' = x
   | (Inr v, x') \<Rightarrow> x' (Shipment.key v) = Some v
        \<and> map_option Shipment.mspid (getShipment (makeKey [uuid]) x) = Some (Shipment.mspid v)"
  by (simp_all add: shipShipment_def updateLocationTemp_def shipmentArrival_def
      Shipment_methods ShipmentList_methods Let_def split: option.split)

text \<open>
  Claim C6, as amended.  \<open>createMaterial2\<close>, \<open>purchaseMaterial2\<close> and \<open>issue\<close> of the vaccine
  batch contract store a record whose owner MSP is the caller's.  \<open>orderShipment\<close> stores a
  shipment whose owner MSP is unset.  \<open>addMaterial2\<close>, \<open>ship\<close>, \<open>arrived\<close>,
  \<open>shipShipment\<close>, \<open>updateLocationTemp\<close> and \<open>shipmentArrival\<close> do not record the caller:
  when they succeed they store the record they return, with the owner MSP of the record as
  the transaction read it; when they throw, the world state is as it was.
\<close>

theorem owner_msp_recorded_on_create_and_purchase_only:
  "map_option RawMaterial.mspid (snd (createMaterial2 caller mn bn q man md s) [man, bn])
     = Some (Some caller)
   \<and> map_option VaccineBatch.mspid
        (snd (VaccineBatchContract_issue None caller vn bn q man md b) [bn, man])
     = Some (Some caller)
   \<and> (case purchaseMaterial2 caller man bn p pr d s of
         (Inl e, s') \<Rightarrow> s' = s
       | (Inr m, s') \<Rightarrow> s' (RawMaterial.key m) = Some m \<and> RawMaterial.mspid m = Some caller)
   \<and> map_option Shipment.mspid (snd (orderShipment caller uuid provider src dst x) [uuid])
     = Some None
   \<and> (case addMaterial2 caller man bn d s of
         (Inl e, s') \<Rightarrow> s' = s
       | (Inr m, s') \<Rightarrow> s' (RawMaterial.key m) = Some m
            \<and> map_option RawMaterial.mspid (getRawMaterial (makeKey [man, bn]) s)
                = Some (RawMaterial.mspid m))
   \<and> (case ship None caller bn man provider uuid b of
         (Inl e, b') \<Rightarrow> b' = b
       | (Inr v, b') \<Rightarrow> b' (VaccineBatch.key v) = Some v
            \<and> map_option VaccineBatch.mspid (getVaccineBatch (makeKey [bn, man]) b)
                = Some (VaccineBatch.mspid v))
   \<and> (case arrived None caller bn man d b of
         (Inl e, b') \<Rightarrow> b' = b
       | (Inr v, b') \<Rightarrow> b' (VaccineBatch.key v) = Some v
            \<and> map_option VaccineBatch.mspid (getVaccineBatch (makeKey [bn, man]) b)
                = Some (VaccineBatch.mspid v))
   \<and> (case shipShipment caller uuid vehicle src ts operator temp x of
         (Inl e, x') \<Rightarrow> x' = x
       | (Inr v, x') \<Rightarrow> x' (Shipment.key v) = Some v
            \<and> map_option Shipment.mspid (getShipment (makeKey [uuid]) x)
                = Some (Shipment.mspid v))
   \<and> (case updateLocationTemp caller uuid ts loc temp x of
         (Inl e, x') \<Rightarrow> x' = x
       | (Inr v, x') \<Rightarrow> x' (Shipment.key v) = Some v
            \<and> map_option Shipment.mspid (getShipment (makeKey [uuid]) x)
                = Some (Shipment.mspid v))
   \<and> (case shipmentArrival caller uuid ts x of
         (Inl e, x') \<Rightarrow> x' = x
       | (Inr v, x') \<Rightarrow> x' (Shipment.key v) = Some v
            \<and> map_option Shipment.mspid (getShipment (makeKey [uuid]) x)
                = Some (Shipment.mspid v))"
  by (intro conjI create_records_caller orderShipment_records_nobody
      purchaseMaterial2_records_caller addMaterial2_ignores_caller
      batch_transitions_ignore_caller shipment_transitions_ignore_caller)

text \<open>
  The claim as it was stated fails: organisation Org2MSP mixes in the example material,
  and the stored record does not name Org2MSP as its owner's organisation.
\<close>

theorem addMaterial_does_not_record_caller:
  "example_materials [''Acme'', ''B-1''] = Some example_material
   \<and> addMaterial2 ''Org2MSP'' ''Acme'' ''B-1'' ''2021-03-01'' example_materials
     = (Inr example_material_mixed,
        example_materials([''Acme'', ''B-1''] \<mapsto> example_material_mixed))
   \<and> RawMaterial.mspid example_material_mixed = None
   \<and> RawMaterial.mspid example_material_mixed \<noteq> Some ''Org2MSP''"
  by (simp add: addMaterial2_def RawMaterial_methods RawMaterialList_methods Let_def
      example_materials_def example_material_def example_material_mixed_def)

text \<open>
  The theorem at the example material: a purchase and a mixing-in by organisation Org2MSP.
\<close>

theorem owner_msp_witness:
  "purchaseMaterial2 ''Org2MSP'' ''Acme'' ''B-1'' ''Pfizer'' ''500'' ''2021-02-01''
        example_materials
      = (Inr example_material_sold, example_materials_sold)
   \<and> example_materials_sold (RawMaterial.key example_material_sold) = Some example_material_sold
   \<and> RawMaterial.mspid example_material_sold = Some ''Org2MSP''
   \<and> addMaterial2 ''Org2MSP'' ''Acme'' ''B-1'' ''2021-03-01'' example_materials
     = (Inr example_material_mixed,
        example_materials([''Acme'', ''B-1''] \<mapsto> example_material_mixed))
   \<and> map_option RawMaterial.mspid (getRawMaterial (makeKey [''Acme'', ''B-1'']) example_materials)
       = Some (RawMaterial.mspid example_material_mixed)"
  using owner_msp_recorded_on_create_and_purchase_only
    [where s = example_materials and caller = "''Org2MSP''" and man = "''Acme''"
      and bn = "''B-1''" and p = "''Pfizer''" and pr = "''500''" and d = "''2021-02-01''"]
  by (simp add: purchaseMaterial2_def addMaterial2_def RawMaterial_methods
      RawMaterialList_methods Let_def example_materials_def example_materials_sold_def
      example_material_def example_material_sold_def example_material_mixed_def)

section \<open>Properties of the vaccine batch contract\<close>

text \<open>
  Claim C10.  \<open>buy\<close> does not compare with the stored purchaser and does not keep the
  state.  The example batch is warehoused and owned by Acme; the sale by Acme to Clinic
  stores it without a state.  Afterwards Clinic is the stored purchaser, but the batch that
  \<open>buy\<close> reads has the manufacturer for its purchaser: a sale by Clinic is rejected, and a
  sale by Acme to Mallory goes through.  With the batch list of the sources, which does not
  load, every request for \<open>buy\<close> fails.
\<close>

theorem buy_forgets_owner_and_state:
  "example_batches [''VB-1'', ''Acme''] = Some example_batch
   \<and> VaccineBatch.currentState example_batch = Some WAREHOUSED
   \<and> buy None ''Org2MSP'' ''VB-1'' ''Acme'' ''Acme'' ''Clinic'' ''900'' ''2021-04-01''
        example_batches
     = (Inr example_batch_sold, example_batches_sold)
   \<and> VaccineBatch.currentState example_batch_sold = None
   \<and> example_batches_sold [''VB-1'', ''Acme''] = Some example_batch_sold
   \<and> VaccineBatch.purchaser example_batch_sold = Some ''Clinic''
   \<and> buy None ''Org3MSP'' ''VB-1'' ''Acme'' ''Clinic'' ''Pharma'' ''950'' ''2021-05-01''
        example_batches_sold
     = (Inl (ReferenceError ''issuer''), example_batches_sold)
   \<and> buy None ''Org3MSP'' ''VB-1'' ''Acme'' ''Acme'' ''Mallory'' ''1'' ''2021-05-01''
        example_batches_sold
     = (Inr example_batch_resold,
        example_batches_sold([''VB-1'', ''Acme''] \<mapsto> example_batch_resold))
   \<and> VaccineBatch.purchaser example_batch_resold = Some ''Mallory''
   \<and> buy VaccineBatchList_require caller bn man currentOwner newOwner pr d s
     = (Inl (ReferenceError ''VaccineBatchList''), s)"
  by (simp add: buy_def VaccineBatchList_require_def VaccineBatch_methods
      VaccineBatchList_methods Let_def example_batches_def example_batches_sold_def
      example_batch_def example_batch_sold_def example_batch_resold_def)

section \<open>Properties of the vaccine contract\<close>

text \<open>
  Claim C7.  Whatever its arguments and the world state, \<open>issue\<close> of the vaccine contract
  throws at the call of \<^verbatim>\<open>setIssueDateTime\<close>, before it reaches the state list: no dose is
  stored and none is returned.
\<close>

theorem VaccineContract_issue_throws:
  "VaccineContract_issue caller vaccineUUID' batchNum' manufacturer' issuer' recipient'
     expirationDateTime' issueDateTime' s = (Inl (TypeError ''setIssueDateTime''), s)"
  by (simp add: VaccineContract_issue_def Vaccine_setIssueDateTime_def Let_def)

section \<open>Properties of the shipment contracts\<close>

text \<open>
  With the class that has the date-time fields, an ordered shipment has no ship date and
  no arrival date.
\<close>

lemma orderShipment_dates_null:
  "orderShipment caller uuid provider src dst s
     = (Inr (Shipment_createInstance uuid provider src dst),
        s([uuid] \<mapsto> Shipment_createInstance uuid provider src dst))"
  "Shipment.shipDateTime (Shipment_createInstance uuid provider src dst) = None"
  "Shipment.arrivalDateTime (Shipment_createInstance uuid provider src dst) = None"
  by (simp_all add: orderShipment_def Shipment_methods ShipmentList_methods Let_def)

text \<open>
  Claim C3.  In the distributor's contract \<open>shipShipment\<close> and \<open>shipmentArrival\<close> throw on
  every call, whatever the world state, and leave it as it was: the class they load has no
  \<^verbatim>\<open>getShipDateTime\<close> and no \<^verbatim>\<open>getArrivalDateTime\<close>.  In particular the first
  \<open>shipShipment\<close> after \<open>orderShipment\<close> does not succeed.
\<close>

theorem distributor_shipment_never_ships:
  "shipShipment_dist caller uuid vehicle src ts operator temp s
     = (Inl (TypeError ''getShipDateTime''), s)
   \<and> shipmentArrival_dist caller uuid ts s = (Inl (TypeError ''getArrivalDateTime''), s)
   \<and> shipShipment_dist callerB uuid vehicle src ts operator temp
        (snd (orderShipment_dist caller uuid provider src dst s))
     = (Inl (TypeError ''getShipDateTime''), snd (orderShipment_dist caller uuid provider src dst s))"
  by (simp add: shipShipment_dist_def shipmentArrival_dist_def Shipment_dist_getShipDateTime_def
      Shipment_dist_getArrivalDateTime_def split: option.split)

text \<open>
  Claim C9.  \<open>updateLocationTemp\<close> changes more than the location, the temperature and
  the timestamp.  The example shipment leaves Basel at 08:00 in vehicle V-9 with operator
  Ann; the update that follows stores it without ship date, vehicle and operator, since
  the shipment that the transaction reads is built by the constructor.  In the
  distributor's contract the update of a stored shipment throws at \<^verbatim>\<open>setTimestamp\<close>
  and stores nothing.
\<close>

theorem updateLocationTemp_forgets_ship_date:
  "shipShipment ''Org3MSP'' ''S-1'' ''V-9'' ''Basel'' ''08:00'' ''Ann'' ''3'' example_shipments
     = (Inr example_shipment_shipped, example_shipments_shipped)
   \<and> example_shipments_shipped [''S-1''] = Some example_shipment_shipped
   \<and> Shipment.shipDateTime example_shipment_shipped = Some ''08:00''
   \<and> Shipment.vehicleUUID example_shipment_shipped = Some ''V-9''
   \<and> Shipment.vehicleOperator example_shipment_shipped = Some ''Ann''
   \<and> updateLocationTemp ''Org3MSP'' ''S-1'' ''09:00'' ''Olten'' ''4'' example_shipments_shipped
     = (Inr example_shipment_located,
        example_shipments_shipped([''S-1''] \<mapsto> example_shipment_located))
   \<and> Shipment.shipDateTime example_shipment_located = None
   \<and> Shipment.vehicleUUID example_shipment_located = None
   \<and> Shipment.vehicleOperator example_shipment_located = None
   \<and> updateLocationTemp_dist ''Org3MSP'' ''S-1'' ''09:00'' ''Olten'' ''4'' example_shipments_dist
     = (Inl (TypeError ''setTimestamp''), example_shipments_dist)"
  by (simp add: shipShipment_def updateLocationTemp_def updateLocationTemp_dist_def
      Shipment_methods ShipmentList_methods Shipment_dist_methods ShipmentList_dist_methods
      Let_def example_shipments_def example_shipments_shipped_def example_shipment_def
      example_shipment_shipped_def example_shipment_located_def example_shipments_dist_def)

section \<open>Properties of the serialisation\<close>

text \<open>
  Claim C4.  \<open>toBuffer\<close> of a vaccine batch does not depend on the raw materials of the
  batch: the example batch and the same batch with raw material B-1 added are different
  objects with the same serialised form, so that no \<open>deserialize\<close> whatever gives both of
  them back.
\<close>

theorem VaccineBatch_toBuffer_forgets_rawMaterialBatchSet:
  "VaccineBatch_toBuffer (VaccineBatch_addRawMaterial ''B-1'' example_batch)
     = VaccineBatch_toBuffer example_batch
   \<and> VaccineBatch_addRawMaterial ''B-1'' example_batch \<noteq> example_batch
   \<and> (\<forall>deserialize.
         \<not> (deserialize (VaccineBatch_toBuffer (VaccineBatch_addRawMaterial ''B-1'' example_batch))
               = VaccineBatch_addRawMaterial ''B-1'' example_batch
            \<and> deserialize (VaccineBatch_toBuffer example_batch) = example_batch))"
proof -
  have same: "VaccineBatch_toBuffer (VaccineBatch_addRawMaterial ''B-1'' example_batch)
                = VaccineBatch_toBuffer example_batch"
    by (simp add: VaccineBatch_toBuffer_def VaccineBatch_addRawMaterial_def json_of_Set_def)
  have "VaccineBatch.rawMaterialBatchSet (VaccineBatch_addRawMaterial ''B-1'' example_batch)
          \<noteq> VaccineBatch.rawMaterialBatchSet example_batch"
    by (simp add: example_batch_def VaccineBatch_methods)
  then have differ: "VaccineBatch_addRawMaterial ''B-1'' example_batch \<noteq> example_batch"
    by auto
  from same differ show ?thesis by metis
qed

section \<open>Properties of the query results\<close>

lemma iterator_next_closed: "iterator_next it = (r, it') \<Longrightarrow> closed it' = closed it"
  by (auto simp: iterator_next_def split: list.splits)

text \<open>
  The iterator is closed when \<open>getAllResults\<close> returns, and is left as it was when it
  throws.
\<close>

lemma getAllResults_loop_closed:
  "getAllResults_loop parse isHistory allResults it = (out, it') \<Longrightarrow>
     (case out of Inr results \<Rightarrow> closed it' | Inl err \<Rightarrow> closed it' = closed it)"
proof (induction parse isHistory allResults it arbitrary: out it'
    rule: getAllResults_loop.induct)
  case (1 parse isHistory allResults it)
  obtain r it1 where nxt: "iterator_next it = (r, it1)"
    by (cases "iterator_next it") auto
  then have c1: "closed it1 = closed it"
    by (rule iterator_next_closed)
  show ?case
  proof (cases "materialize parse isHistory r allResults")
    case (Inl err)
    with nxt "1.prems" have "out = Inl err" and "it' = it1"
      by (simp_all add: getAllResults_loop.simps [of parse isHistory allResults it])
    with c1 show ?thesis by simp
  next
    case (Inr allResults')
    show ?thesis
    proof (cases "res_done r")
      case True
      with nxt Inr "1.prems" have "out = Inr allResults'" and "it' = iterator_close it1"
        by (simp_all add: getAllResults_loop.simps [of parse isHistory allResults it])
      then show ?thesis by (simp add: iterator_close_def)
    next
      case False
      with nxt Inr "1.prems"
      have "getAllResults_loop parse isHistory allResults' it1 = (out, it')"
        by (simp add: getAllResults_loop.simps [of parse isHistory allResults it])
      from "1.IH" [OF nxt [symmetric] Inr False this] c1 show ?thesis
        by (auto split: sum.splits)
    qed
  qed
qed

text \<open>
  When no result that the iterator hands out is marked done, the first result that is done
  is the end marker of the platform, which has no entry: \<open>getAllResults\<close> throws there and
  the iterator is left as it was.
\<close>

lemma getAllResults_loop_throws_at_end_marker:
  "\<forall>r \<in> set (pending it). \<not> res_done r \<Longrightarrow>
     isl (fst (getAllResults_loop parse isHistory allResults it))"
proof (induction parse isHistory allResults it rule: getAllResults_loop.induct)
  case (1 parse isHistory allResults it)
  show ?case
  proof (cases "pending it")
    case Nil
    then show ?thesis
      by (simp add: getAllResults_loop.simps [of parse isHistory allResults it]
          iterator_next_def materialize_def)
  next
    case (Cons r rs)
    then have nxt: "iterator_next it = (r, it\<lparr>pending := rs\<rparr>)"
      by (simp add: iterator_next_def)
    from Cons "1.prems" have nd: "\<not> res_done r"
      and rest: "\<forall>r \<in> set (pending (it\<lparr>pending := rs\<rparr>)). \<not> res_done r"
      by simp_all
    show ?thesis
    proof (cases "materialize parse isHistory r allResults")
      case (Inl err)
      with nxt show ?thesis
        by (simp add: getAllResults_loop.simps [of parse isHistory allResults it])
    next
      case (Inr allResults')
      from "1.IH" [OF nxt [symmetric] Inr nd rest] nxt Inr nd show ?thesis
        by (simp add: getAllResults_loop.simps [of parse isHistory allResults it])
    qed
  qed
qed

lemma getAllResults_never_closes_without_done_result:
  assumes "\<forall>r \<in> set (pending it). \<not> res_done r"
  shows "isl (fst (getAllResults parse it isHistory))"
    and "closed (snd (getAllResults parse it isHistory)) = closed it"
proof -
  show a: "isl (fst (getAllResults parse it isHistory))"
    using assms by (simp add: getAllResults_def getAllResults_loop_throws_at_end_marker)
  obtain out it' where o: "getAllResults_loop parse isHistory [] it = (out, it')"
    by (cases "getAllResults_loop parse isHistory [] it") auto
  with a have "isl out" by (simp add: getAllResults_def)
  with getAllResults_loop_closed [OF o] have "closed it' = closed it"
    by (cases out) simp_all
  with o show "closed (snd (getAllResults parse it isHistory)) = closed it"
    by (simp add: getAllResults_def)
qed

text \<open>
  Claim C8.  On a result set of two entries and on an empty one, for a query and for a
  history, \<open>getAllResults\<close> reads all the results, throws at the end marker of the platform
  (the three logging lines read \<^verbatim>\<open>res.value.value\<close> before the test for a missing
  entry) and leaves the iterator open.
\<close>

theorem getAllResults_throws_at_end_marker:
  "getAllResults example_parse example_two_results False
     = (Inl (TypeError ''value''), \<lparr> pending = [], closed = False \<rparr>)
   \<and> getAllResults example_parse example_two_results True
     = (Inl (TypeError ''value''), \<lparr> pending = [], closed = False \<rparr>)
   \<and> getAllResults example_parse example_no_results False
     = (Inl (TypeError ''value''), \<lparr> pending = [], closed = False \<rparr>)
   \<and> getAllResults example_parse example_no_results True
     = (Inl (TypeError ''value''), \<lparr> pending = [], closed = False \<rparr>)"
  by (simp add: getAllResults_eval example_two_results_def example_no_results_def
      example_entry_def example_parse_def)

end
